theory Spec2Isabelle
  imports Complex_Main
begin

section \<open>Python text\<close>

text \<open>
  A Python \<open>str\<close> is a sequence of Unicode code points; the model keeps it as a list of
  natural numbers, one per code point. Literals of the source that are plain ASCII are
  written \<open>u ''...''\<close>; the emoji of the source are written as their code points.
\<close>

type_synonym pystr = "nat list"

definition u :: "string \<Rightarrow> pystr" where
  "u s = map of_char s"

text \<open>
  \<open>str.strip()\<close> with no argument removes the code points for which \<open>str.isspace\<close> holds
  from both ends. The set below is CPython's: the ASCII controls 9-13 and 28-31, the
  space, and the Unicode separators.
\<close>

definition py_isspace :: "nat \<Rightarrow> bool" where
  "py_isspace c \<longleftrightarrow>
     (9 \<le> c \<and> c \<le> 13) \<or> (28 \<le> c \<and> c \<le> 32) \<or> c = 0x85 \<or> c = 0xA0 \<or> c = 0x1680 \<or>
     (0x2000 \<le> c \<and> c \<le> 0x200A) \<or> c = 0x2028 \<or> c = 0x2029 \<or> c = 0x202F \<or>
     c = 0x205F \<or> c = 0x3000"

definition py_strip :: "pystr \<Rightarrow> pystr" where
  "py_strip s = rev (dropWhile py_isspace (rev (dropWhile py_isspace s)))"

text \<open>
  \<open>s.split(sep)\<close> for a one-character separator: every occurrence of the separator ends a
  segment, empty segments are kept, and the result is never empty (\<open>''.split('\n')\<close> is
  \<open>['']\<close>). The second branch of the \<open>case\<close> is never taken.
\<close>

fun py_split :: "nat \<Rightarrow> pystr \<Rightarrow> pystr list" where
  "py_split sep [] = [[]]"
| "py_split sep (c # cs) =
     (if c = sep then [] # py_split sep cs
      else (case py_split sep cs of
              l # ls \<Rightarrow> (c # l) # ls
            | [] \<Rightarrow> [[c]]))"

text \<open>\<open>s.split()\<close> with no argument: the maximal runs of non-whitespace code points.\<close>

fun split_ws_from :: "pystr \<Rightarrow> pystr \<Rightarrow> pystr list" where
  "split_ws_from cur [] = (if cur = [] then [] else [rev cur])"
| "split_ws_from cur (c # cs) =
     (if py_isspace c
      then (if cur = [] then split_ws_from [] cs else rev cur # split_ws_from [] cs)
      else split_ws_from (c # cur) cs)"

definition py_split_ws :: "pystr \<Rightarrow> pystr list" where
  "py_split_ws s = split_ws_from [] s"

text \<open>\<open>sep.join(xs)\<close>.\<close>

fun py_join :: "pystr \<Rightarrow> pystr list \<Rightarrow> pystr" where
  "py_join sep [] = []"
| "py_join sep [x] = x"
| "py_join sep (x # y # ys) = x @ sep @ py_join sep (y # ys)"

text \<open>\<open>pat in s\<close> on strings: \<open>pat\<close> occurs in \<open>s\<close> as a contiguous block.\<close>

primrec py_in :: "pystr \<Rightarrow> pystr \<Rightarrow> bool" where
  "py_in pat [] = (pat = [])"
| "py_in pat (c # cs) = (take (length pat) (c # cs) = pat \<or> py_in pat cs)"

text \<open>
  \<open>str.lower()\<close>. The ASCII capitals go to their small letters. Only two code points
  outside ASCII have an ASCII letter in their lower-case form: U+0130 (to \<open>i\<close> followed by
  U+0307) and U+212A, the Kelvin sign (to \<open>k\<close>). Python sends every other cased letter
  outside ASCII to code points outside ASCII; the model leaves those in place. The source
  uses the lowered line for nothing but tests against ASCII keywords, and such a test
  cannot tell one code point outside ASCII from another.
\<close>

definition lower_cp :: "nat \<Rightarrow> pystr" where
  "lower_cp c =
     (if 65 \<le> c \<and> c \<le> 90 then [c + 32]
      else if c = 0x130 then [0x69, 0x307]
      else if c = 0x212A then [0x6B]
      else [c])"

definition py_lower :: "pystr \<Rightarrow> pystr" where
  "py_lower s = concat (map lower_cp s)"

text \<open>\<open>str(n)\<close> for an integer: decimal digits, with a minus sign below zero.\<close>

fun str_nat :: "nat \<Rightarrow> pystr" where
  "str_nat n = (if n < 10 then [48 + n] else str_nat (n div 10) @ [48 + n mod 10])"

declare str_nat.simps [simp del]

definition str_int :: "int \<Rightarrow> pystr" where
  "str_int i = (if i < 0 then 45 # str_nat (nat (- i)) else str_nat (nat i))"

section \<open>The output classifier\<close>

text \<open>
  \<open>_format_command_output\<close> puts one of three icons and a space in front of a line, or
  leaves the line as it is. The icon is the line's tag: U+2705 for SUCCESS, U+1F7E1 for
  WARNING, U+1F534 for ERROR, nothing for PLAIN. The tests run in the order of the
  source's \<open>if\<close>/\<open>elif\<close> chain.
\<close>

datatype tag = SUCCESS | WARNING | ERROR | PLAIN

definition any_word_in :: "pystr list \<Rightarrow> pystr \<Rightarrow> bool" where
  "any_word_in words line = list_ex (\<lambda>word. py_in word (py_lower line)) words"

definition classify_line :: "pystr \<Rightarrow> tag" where
  "classify_line line =
     (if any_word_in [u ''success'', u ''passed'', u ''complete''] line then SUCCESS
      else if any_word_in [u ''warning''] line then WARNING
      else if any_word_in [u ''error''] line then ERROR
      else PLAIN)"

fun icon :: "tag \<Rightarrow> pystr" where
  "icon SUCCESS = [0x2705, 32]"
| "icon WARNING = [0x1F7E1, 32]"
| "icon ERROR = [0x1F534, 32]"
| "icon PLAIN = []"

definition classify :: "pystr \<Rightarrow> (tag \<times> pystr) list" where
  "classify output = map (\<lambda>line. (classify_line line, line)) (py_split 10 (py_strip output))"

fun render_line :: "tag \<times> pystr \<Rightarrow> pystr" where
  "render_line (t, line) = icon t @ line"

definition format_command_output :: "pystr \<Rightarrow> pystr" where
  "format_command_output output = py_join [10] (map render_line (classify output))"

text \<open>
  \<open>_format_error_output\<close>: the lines that \<open>line.strip()\<close> leaves non-empty, each behind
  U+1F525 and a space.
\<close>

definition format_error_output :: "pystr \<Rightarrow> pystr" where
  "format_error_output output =
     py_join [10] (map (\<lambda>line. [0x1F525, 32] @ line)
       (filter (\<lambda>line. py_strip line \<noteq> []) (py_split 10 (py_strip output))))"

section \<open>Numbers in reports\<close>

text \<open>
  \<open>f"{x:.2f}"\<close> prints the decimal with two fractional digits nearest to \<open>x\<close>, the even
  one at a tie, with a minus sign for every \<open>x\<close> below zero. A Python float is a rational
  number, and the model keeps clock readings and their difference as rationals; the
  rounding of the floating-point subtraction itself is not modelled.
\<close>

definition round_half_even :: "rat \<Rightarrow> int" where
  "round_half_even q =
     (let f = \<lfloor>q\<rfloor>; r = q - of_int f
      in if r < 1 / 2 then f else if 1 / 2 < r then f + 1 else if even f then f else f + 1)"

definition fmt_2f :: "rat \<Rightarrow> pystr" where
  "fmt_2f x =
     (let n = nat (round_half_even (\<bar>x\<bar> * 100))
      in (if x < 0 then [45] else []) @ str_nat (n div 100) @
         [46, 48 + (n mod 100) div 10, 48 + n mod 10])"

section \<open>Child processes and the world around a call\<close>

text \<open>
  An exception is kept with the text that \<open>str(e)\<close> gives. The source tells
  \<open>FileNotFoundError\<close> from the rest in one handler, so that class has a constructor of
  its own.
\<close>

datatype exn = FileNotFoundError pystr | OtherError pystr

fun str_exn :: "exn \<Rightarrow> pystr" where
  "str_exn (FileNotFoundError m) = m"
| "str_exn (OtherError m) = m"

text \<open>
  A captured stream is a \<open>bytes\<close> object. The source tests it for emptiness, decodes it
  with \<open>.decode()\<close> (strict UTF-8, which raises on a malformed sequence) and searches it for
  ASCII byte strings. \<open>Utf8 t\<close> stands for the encoding of the text \<open>t\<close>; \<open>Invalid bs e\<close>
  for the bytes \<open>bs\<close> on which decoding raises \<open>e\<close>. An ASCII pattern occurs in the
  encoding of \<open>t\<close> exactly when it occurs in \<open>t\<close>.
\<close>

datatype bytes = Utf8 pystr | Invalid "nat list" exn

fun nonempty :: "bytes \<Rightarrow> bool" where
  "nonempty (Utf8 t) = (t \<noteq> [])"
| "nonempty (Invalid bs e) = True"

fun decode :: "bytes \<Rightarrow> exn + pystr" where
  "decode (Utf8 t) = Inr t"
| "decode (Invalid bs e) = Inl e"

fun bytes_in :: "pystr \<Rightarrow> bytes \<Rightarrow> bool" where
  "bytes_in pat (Utf8 t) = py_in pat t"
| "bytes_in pat (Invalid bs e) = py_in pat bs"

text \<open>
  What a launched child does: it ends after some seconds with a return code and the two
  captured streams, or it never ends.
\<close>

datatype proc = Exits rat int bytes bytes | Hangs

text \<open>
  Everything a call reads from outside: whether \<open>docker-compose.yml\<close> exists under the
  project root, what \<open>asyncio.create_subprocess_exec\<close> does for an argument vector, the
  two readings of \<open>time.time()\<close>, the process environment, and \<open>json.loads\<close> on the text
  of the run list (see \<open>run\<close> below).
\<close>

datatype jval = JNull | JInt int | JStr pystr

type_synonym run = "pystr \<Rightarrow> jval option"

record world =
  compose_file_exists :: "exn + bool"
  create_subprocess_exec :: "pystr list \<Rightarrow> exn + proc"
  time_start :: rat
  time_end :: rat
  getenv :: "pystr \<Rightarrow> pystr option"
  json_loads :: "pystr \<Rightarrow> exn + run list"

text \<open>
  A coroutine of the source returns a value, raises, or waits for ever on a child that
  never ends. Beside its result each model function gives the argument vectors it handed
  to \<open>create_subprocess_exec\<close>, in order.
\<close>

datatype 'a result = Returned 'a | Raised exn | Pending

type_synonym log = "pystr list list"

text \<open>
  \<open>asyncio.wait_for(process.communicate(), timeout)\<close>: the streams and the return code
  when the child ends within the bound, \<open>None\<close> for \<open>asyncio.TimeoutError\<close>. The
  \<open>process.kill()\<close> of the timeout handler acts on a child that is still running and is
  taken to succeed.
\<close>

fun wait_for :: "proc \<Rightarrow> int \<Rightarrow> (int \<times> bytes \<times> bytes) option" where
  "wait_for Hangs timeout = None"
| "wait_for (Exits t rc out err) timeout =
     (if of_int timeout < t then None else Some (rc, out, err))"

section \<open>The environment validator\<close>

definition docker_ps :: "pystr list" where
  "docker_ps = [u ''docker'', u ''ps'']"

text \<open>The body of the \<open>try\<close> in \<open>_validate_docker_environment\<close>.\<close>

definition validate_body :: "world \<Rightarrow> log \<times> bool result" where
  "validate_body w =
     (case compose_file_exists w of
        Inl e \<Rightarrow> ([], Raised e)
      | Inr False \<Rightarrow> ([], Returned False)
      | Inr True \<Rightarrow>
          (case create_subprocess_exec w docker_ps of
             Inl e \<Rightarrow> ([docker_ps], Raised e)
           | Inr Hangs \<Rightarrow> ([docker_ps], Pending)
           | Inr (Exits t rc out err) \<Rightarrow> ([docker_ps], Returned (rc = 0))))"

text \<open>\<open>except Exception: return False\<close>.\<close>

definition validate_docker_environment :: "world \<Rightarrow> log \<times> bool result" where
  "validate_docker_environment w =
     (case validate_body w of
        (lg, Raised e) \<Rightarrow> (lg, Returned False)
      | (lg, r) \<Rightarrow> (lg, r))"

section \<open>The command executor and its report\<close>

definition validation_failed_message :: pystr where
  "validation_failed_message =
     [0x274C] @ u '' Docker environment validation failed. Please ensure Docker is running and docker-compose.yml exists.''"

definition build_cmd :: "pystr \<Rightarrow> bool \<Rightarrow> pystr list" where
  "build_cmd command compose_command =
     (if compose_command then [u ''docker-compose''] @ py_split_ws command
      else [u ''docker-compose'', u ''run'', u ''--rm'', command])"

definition timeout_message :: "int \<Rightarrow> pystr list \<Rightarrow> pystr" where
  "timeout_message timeout cmd =
     [0x274C] @ u '' Command timed out after '' @ str_int timeout @ u '' seconds: '' @
     py_join [32] cmd"

text \<open>
  \<open>if stream: output_lines.append(header); output_lines.append(fmt(stream.decode()))\<close>:
  the lines one stream adds to the report, or the exception of \<open>decode\<close>.
\<close>

definition stream_section :: "pystr \<Rightarrow> (pystr \<Rightarrow> pystr) \<Rightarrow> bytes \<Rightarrow> exn + pystr list" where
  "stream_section header fmt b =
     (if nonempty b
      then (case decode b of Inl e \<Rightarrow> Inl e | Inr text \<Rightarrow> Inr [header, fmt text])
      else Inr [])"

definition report_head :: "pystr \<Rightarrow> pystr list \<Rightarrow> rat \<Rightarrow> pystr list" where
  "report_head description cmd execution_time =
     [[0x1F680, 32] @ description,
      [0x1F4CB] @ u '' Command: '' @ py_join [32] cmd,
      [0x23F1, 0xFE0F] @ u ''  Execution time: '' @ fmt_2f execution_time @ u ''s'',
      []]"

definition success_banner :: pystr where
  "success_banner = [0x2705] @ u '' Success!''"

definition failure_banner :: "int \<Rightarrow> pystr" where
  "failure_banner rc = [0x274C] @ u '' Failed with exit code '' @ str_int rc"

text \<open>The part of \<open>_run_docker_command\<close> after \<open>communicate\<close> has returned.\<close>

definition completed_report ::
  "pystr \<Rightarrow> pystr list \<Rightarrow> rat \<Rightarrow> int \<Rightarrow> bytes \<Rightarrow> bytes \<Rightarrow> exn + pystr" where
  "completed_report description cmd execution_time rc out err =
     (let output_lines = report_head description cmd execution_time
      in if rc = 0 then
           (case stream_section ([0x1F4C4] @ u '' Output:'') format_command_output out of
              Inl e \<Rightarrow> Inl e
            | Inr os \<Rightarrow> Inr (py_join [10] (output_lines @ [success_banner] @ os)))
         else
           (case stream_section ([0x1F525] @ u '' Error output:'') format_error_output err of
              Inl e \<Rightarrow> Inl e
            | Inr es \<Rightarrow>
                (case stream_section ([0x1F4C4] @ u '' Standard output:'')
                        format_command_output out of
                   Inl e \<Rightarrow> Inl e
                 | Inr os \<Rightarrow>
                     Inr (py_join [10] (output_lines @ [failure_banner rc] @ es @ os)))))"

text \<open>The body of the \<open>try\<close> in \<open>_run_docker_command\<close>.\<close>

definition run_body :: "world \<Rightarrow> pystr \<Rightarrow> pystr \<Rightarrow> int \<Rightarrow> bool \<Rightarrow> log \<times> pystr result" where
  "run_body w command description timeout compose_command =
     (case validate_docker_environment w of
        (lg, Pending) \<Rightarrow> (lg, Pending)
      | (lg, Raised e) \<Rightarrow> (lg, Raised e)
      | (lg, Returned ok) \<Rightarrow>
          if \<not> ok then (lg, Returned validation_failed_message)
          else
            (let cmd = build_cmd command compose_command
             in case create_subprocess_exec w cmd of
                  Inl e \<Rightarrow> (lg @ [cmd], Raised e)
                | Inr p \<Rightarrow>
                    (case wait_for p timeout of
                       None \<Rightarrow> (lg @ [cmd], Returned (timeout_message timeout cmd))
                     | Some (rc, out, err) \<Rightarrow>
                         (case completed_report description cmd (time_end w - time_start w)
                                 rc out err of
                            Inl e \<Rightarrow> (lg @ [cmd], Raised e)
                          | Inr text \<Rightarrow> (lg @ [cmd], Returned text)))))"

text \<open>\<open>except Exception as e\<close>: the exception becomes the report.\<close>

definition run_docker_command ::
  "world \<Rightarrow> pystr \<Rightarrow> pystr \<Rightarrow> int \<Rightarrow> bool \<Rightarrow> log \<times> pystr result" where
  "run_docker_command w command description timeout compose_command =
     (case run_body w command description timeout compose_command of
        (lg, Raised e) \<Rightarrow>
          (lg, Returned ([0x274C] @ u '' Error executing command: '' @ str_exn e))
      | (lg, r) \<Rightarrow> (lg, r))"

section \<open>The workflow status probe\<close>

definition gh_version :: "pystr list" where
  "gh_version = [u ''gh'', u ''--version'']"

definition gh_auth_status :: "pystr list" where
  "gh_auth_status = [u ''gh'', u ''auth'', u ''status'']"

text \<open>Truth of a value of \<open>os.getenv\<close>: set and not empty.\<close>

definition env_set :: "world \<Rightarrow> pystr \<Rightarrow> bool" where
  "env_set w name = (case getenv w name of None \<Rightarrow> False | Some v \<Rightarrow> v \<noteq> [])"

definition not_authenticated_messages :: "world \<Rightarrow> pystr list" where
  "not_authenticated_messages w =
     [[0x274C] @ u '' GitHub CLI not authenticated'',
      [0x1F527] @ u '' Container setup:''] @
     (if env_set w (u ''GITHUB_TOKEN'') \<or> env_set w (u ''GH_TOKEN'')
      then [u ''  1. GITHUB_TOKEN found in environment'',
            u ''  2. Run: echo $GITHUB_TOKEN | gh auth login --with-token'']
      else [u ''  1. Set GITHUB_TOKEN environment variable'',
            u ''  2. Run: docker-compose up -d mcp-server'',
            u ''  3. Or run: ./scripts/setup-github-auth.sh'']) @
     [[],
      [0x1F511] @ u '' Token requirements for private repos:'',
      u ''  - repo (full control of private repositories)'',
      u ''  - workflow (update GitHub Action workflows)'',
      u ''  - read:org (read org and team membership)'']"

text \<open>
  \<open>_check_github_auth\<close> returns a dictionary with the keys \<open>authenticated\<close> and
  \<open>messages\<close>; the model returns the pair of their values. First the body of the \<open>try\<close>.
\<close>

definition gh_auth_body :: "world \<Rightarrow> log \<times> (bool \<times> pystr list) result" where
  "gh_auth_body w =
     (case create_subprocess_exec w gh_version of
        Inl e \<Rightarrow> ([gh_version], Raised e)
      | Inr Hangs \<Rightarrow> ([gh_version], Pending)
      | Inr (Exits t rc out err) \<Rightarrow>
          if rc \<noteq> 0 then
            ([gh_version],
             Returned (False,
               [[0x274C] @ u '' GitHub CLI not found'',
                [0x1F4A1] @ u '' Install GitHub CLI in container: included in Dockerfile'',
                [0x1F4DA] @ u '' Setup guide: ./scripts/setup-github-auth.sh'']))
          else
            (case create_subprocess_exec w gh_auth_status of
               Inl e \<Rightarrow> ([gh_version, gh_auth_status], Raised e)
             | Inr Hangs \<Rightarrow> ([gh_version, gh_auth_status], Pending)
             | Inr (Exits t' rc' out' err') \<Rightarrow>
                 ([gh_version, gh_auth_status],
                  Returned
                    (if rc' = 0 then (True, [[0x2705] @ u '' GitHub CLI authenticated''])
                     else (False, not_authenticated_messages w)))))"

definition check_github_auth :: "world \<Rightarrow> log \<times> (bool \<times> pystr list) result" where
  "check_github_auth w =
     (case gh_auth_body w of
        (lg, Raised e) \<Rightarrow>
          (lg, Returned (False,
             [[0x274C] @ u '' Error checking GitHub auth: '' @ str_exn e,
              [0x1F4A1] @ u '' Run: ./scripts/setup-github-auth.sh'']))
      | (lg, r) \<Rightarrow> (lg, r))"

text \<open>
  A run record is the dictionary that \<open>json.loads\<close> builds from one object of
  \<open>gh run list --json\<close>: a map from member names to values. \<open>gh\<close> prints strings, numbers
  and \<open>null\<close> for the members asked for, and \<open>jval\<close> covers those.
\<close>

definition run_get :: "run \<Rightarrow> pystr \<Rightarrow> jval \<Rightarrow> jval" where
  "run_get r key dflt = (case r key of None \<Rightarrow> dflt | Some v \<Rightarrow> v)"

fun str_jval :: "jval \<Rightarrow> pystr" where
  "str_jval JNull = u ''None''"
| "str_jval (JInt n) = str_int n"
| "str_jval (JStr s) = s"

fun truthy :: "jval \<Rightarrow> bool" where
  "truthy JNull = False"
| "truthy (JInt n) = (n \<noteq> 0)"
| "truthy (JStr s) = (s \<noteq> [])"

text \<open>\<open>created[:19].replace('T', ' ')\<close>; only a string can be sliced.\<close>

fun created_text :: "jval \<Rightarrow> exn + pystr" where
  "created_text (JStr s) = Inr (map (\<lambda>c. if c = 84 then 32 else c) (take 19 s))"
| "created_text (JInt n) = Inl (OtherError ([39] @ u ''int'' @ [39] @ u '' object is not subscriptable''))"
| "created_text JNull = Inl (OtherError ([39] @ u ''NoneType'' @ [39] @ u '' object is not subscriptable''))"

definition status_icon :: "jval \<Rightarrow> jval \<Rightarrow> pystr" where
  "status_icon status conclusion =
     (if status = JStr (u ''completed'') then
        (if conclusion = JStr (u ''success'') then [0x2705]
         else if conclusion = JStr (u ''failure'') then [0x274C]
         else if conclusion = JStr (u ''cancelled'') then [0x1F6AB]
         else [0x26A0, 0xFE0F])
      else if status = JStr (u ''in_progress'') then [0x1F504]
      else if status = JStr (u ''queued'') then [0x23F3]
      else [0x2753])"

text \<open>One pass of the loop over the runs: the lines it appends, or its exception.\<close>

definition render_run :: "run \<Rightarrow> exn + pystr list" where
  "render_run r =
     (let status = run_get r (u ''status'') (JStr (u ''unknown''));
          conclusion = run_get r (u ''conclusion'') (JStr (u ''unknown''));
          name = run_get r (u ''workflowName'') (JStr (u ''Unknown''));
          branch = run_get r (u ''headBranch'') (JStr (u ''unknown''));
          created = run_get r (u ''createdAt'') (JStr []);
          url = run_get r (u ''url'') (JStr []);
          run_id = run_get r (u ''databaseId'') (JStr [])
      in case created_text created of
           Inl e \<Rightarrow> Inl e
         | Inr ct \<Rightarrow>
             Inr ([status_icon status conclusion @ u '' **'' @ str_jval name @ u ''** ('' @
                     str_jval branch @ u '')'',
                   u ''   Status: '' @ str_jval status @ u '' | Conclusion: '' @
                     str_jval conclusion,
                   u ''   Created: '' @ ct,
                   u ''   Run ID: '' @ str_jval run_id] @
                  (if truthy url then [u ''   URL: '' @ str_jval url] else []) @
                  [[]]))"

fun render_runs :: "run list \<Rightarrow> exn + pystr list" where
  "render_runs [] = Inr []"
| "render_runs (r # rs) =
     (case render_run r of
        Inl e \<Rightarrow> Inl e
      | Inr ls \<Rightarrow> (case render_runs rs of Inl e \<Rightarrow> Inl e | Inr ls' \<Rightarrow> Inr (ls @ ls')))"

definition status_header :: "pystr list" where
  "status_header = [[0x1F50D] @ u '' GitHub Actions Workflow Status'', replicate 40 61, []]"

definition run_list_cmd :: "int \<Rightarrow> pystr option \<Rightarrow> pystr list" where
  "run_list_cmd limit workflow_name =
     [u ''gh'', u ''run'', u ''list'', u ''--limit'', str_int limit, u ''--json'',
      u ''status,conclusion,name,createdAt,headBranch,workflowName,url,databaseId''] @
     (case workflow_name of
        None \<Rightarrow> []
      | Some n \<Rightarrow> if n \<noteq> [] then [u ''--workflow'', n] else [])"

definition no_runs_line :: pystr where
  "no_runs_line = [0x2139, 0xFE0F] @ u ''  No workflow runs found''"

text \<open>
  \<open>except FileNotFoundError\<close> of the inner \<open>try\<close>: five lines are appended and the
  function goes on to its last \<open>return\<close>; every other exception passes to the outer
  handler. Wherever the inner \<open>try\<close> can raise \<open>FileNotFoundError\<close>, \<open>output_lines\<close> still
  holds the header only.
\<close>

definition inner_handler :: "exn \<Rightarrow> pystr result" where
  "inner_handler e =
     (case e of
        FileNotFoundError m \<Rightarrow>
          Returned (py_join [10] (status_header @
            [[0x274C] @ u '' GitHub CLI (gh) not found'',
             [0x1F4A1] @ u '' Install GitHub CLI: https://cli.github.com/'',
             [],
             [0x1F527] @ u '' Alternative: Check workflows manually'',
             u ''   Visit: https://github.com/your-repo/actions'']))
      | OtherError m \<Rightarrow> Raised e)"

text \<open>The inner \<open>try\<close> of \<open>_check_workflow_runs\<close>, from the launch of the query on.\<close>

definition query_runs :: "world \<Rightarrow> pystr list \<Rightarrow> pystr result" where
  "query_runs w cmd =
     (case create_subprocess_exec w cmd of
        Inl e \<Rightarrow> inner_handler e
      | Inr Hangs \<Rightarrow> Pending
      | Inr (Exits t rc out err) \<Rightarrow>
          if rc \<noteq> 0 then
            (if bytes_in (u ''not found'') err \<or> bytes_in (u ''No workflows found'') err
             then Returned (py_join [10] (status_header @
                    [no_runs_line,
                     [0x1F4A1] @ u '' Check if this repository has GitHub Actions enabled'']))
             else (case decode err of
                     Inl e \<Rightarrow> inner_handler e
                   | Inr text \<Rightarrow>
                       Returned (py_join [10] (status_header @
                         [[0x274C] @ u '' Error getting workflow runs: '' @ text]))))
          else
            (case decode out of
               Inl e \<Rightarrow> inner_handler e
             | Inr text \<Rightarrow>
                 (case json_loads w text of
                    Inl e \<Rightarrow> inner_handler e
                  | Inr runs \<Rightarrow>
                      if List.null runs
                      then Returned (py_join [10] (status_header @ [no_runs_line]))
                      else
                        (case render_runs runs of
                           Inl e \<Rightarrow> inner_handler e
                         | Inr ls \<Rightarrow>
                             Returned (py_join [10] (status_header @
                               [[0x1F4CA] @ u '' Latest '' @ str_nat (length runs) @
                                  u '' Workflow Runs:'',
                                []] @ ls))))))"

definition workflow_runs_body :: "world \<Rightarrow> int \<Rightarrow> pystr option \<Rightarrow> log \<times> pystr result" where
  "workflow_runs_body w limit workflow_name =
     (case check_github_auth w of
        (lg, Pending) \<Rightarrow> (lg, Pending)
      | (lg, Raised e) \<Rightarrow> (lg, Raised e)
      | (lg, Returned (authenticated, messages)) \<Rightarrow>
          if \<not> authenticated then (lg, Returned (py_join [10] (status_header @ messages)))
          else
            (let cmd = run_list_cmd limit workflow_name
             in (lg @ [cmd], query_runs w cmd)))"

definition check_workflow_runs :: "world \<Rightarrow> int \<Rightarrow> pystr option \<Rightarrow> log \<times> pystr result" where
  "check_workflow_runs w limit workflow_name =
     (case workflow_runs_body w limit workflow_name of
        (lg, Raised e) \<Rightarrow>
          (lg, Returned ([0x274C] @ u '' Error checking workflow runs: '' @ str_exn e))
      | (lg, r) \<Rightarrow> (lg, r))"

section \<open>Readings of the classifier used for comparison\<close>

text \<open>
  The rendered output with the inserted icons taken off again: each rendered line loses
  as many leading code points as the icon of its tag has. \<open>tags\<close> are the tags under
  which the lines were rendered.
\<close>

definition strip_icons :: "tag list \<Rightarrow> pystr \<Rightarrow> pystr" where
  "strip_icons tags rendered =
     py_join [10] (map (\<lambda>(t, line). drop (length (icon t)) line)
                       (zip tags (py_split 10 rendered)))"

text \<open>
  The non-blank lines of a text as it stands, without the strip of the whole text that
  the formatters apply first.
\<close>

definition nonblank_lines :: "pystr \<Rightarrow> pystr list" where
  "nonblank_lines output = filter (\<lambda>line. py_strip line \<noteq> []) (py_split 10 output)"

text \<open>
  \<open>str.lstrip()\<close> and \<open>str.rstrip()\<close>, and what the strip of a whole text does to its
  list of non-blank lines: the first loses its leading whitespace, the last its trailing
  whitespace.
\<close>

definition py_lstrip :: "pystr \<Rightarrow> pystr" where
  "py_lstrip s = dropWhile py_isspace s"

definition py_rstrip :: "pystr \<Rightarrow> pystr" where
  "py_rstrip s = rev (dropWhile py_isspace (rev s))"

fun trim_ends :: "pystr list \<Rightarrow> pystr list" where
  "trim_ends [] = []"
| "trim_ends (l # ls) = (let xs = py_lstrip l # ls in butlast xs @ [py_rstrip (last xs)])"

section \<open>Worlds for the examples\<close>

text \<open>
  A world of the container toolchain: the descriptor file is there or not, \<open>docker ps\<close>
  ends with the given code, the one command \<open>cmd\<close> behaves as \<open>p\<close>, nothing else can be
  launched, and the clock advances by \<open>elapsed\<close> seconds between its two readings.
\<close>

definition docker_world :: "bool \<Rightarrow> int \<Rightarrow> pystr list \<Rightarrow> proc \<Rightarrow> rat \<Rightarrow> world" where
  "docker_world file_exists probe_rc cmd p elapsed =
     \<lparr>compose_file_exists = Inr file_exists,
      create_subprocess_exec =
        (\<lambda>argv. if argv = docker_ps then Inr (Exits 0 probe_rc (Utf8 []) (Utf8 []))
                else if argv = cmd then Inr p
                else Inl (FileNotFoundError (u ''No such file or directory''))),
      time_start = 1000,
      time_end = 1000 + elapsed,
      getenv = (\<lambda>name. None),
      json_loads = (\<lambda>text. Inl (OtherError (u ''Expecting value'')))\<rparr>"

text \<open>
  The \<open>lint\<close> tool as \<open>_setup_tools\<close> registers it: the command \<open>lint\<close> with its
  description, the default timeout of 300 seconds, run in a disposable container.
\<close>

definition lint :: "world \<Rightarrow> log \<times> pystr result" where
  "lint w = run_docker_command w (u ''lint'') (u ''Running C++ linting checks...'') 300 False"

definition lint_cmd :: "pystr list" where
  "lint_cmd = [u ''docker-compose'', u ''run'', u ''--rm'', u ''lint'']"

definition lint_description :: pystr where
  "lint_description = u ''Running C++ linting checks...''"

definition lint_stdout :: pystr where
  "lint_stdout = u ''Checking... 0 warnings'' @ [10] @ u ''All checks passed''"

text \<open>What \<open>bytes.decode()\<close> raises on the single byte \<open>0xff\<close>.\<close>

definition utf8_error :: exn where
  "utf8_error =
     OtherError ([39] @ u ''utf-8'' @ [39] @ u '' codec can'' @ [39] @
                 u ''t decode byte 0xff in position 0: invalid start byte'')"

text \<open>
  A world of the hosting CLI: what launching \<open>gh --version\<close>, \<open>gh auth status\<close> and the
  one run-list command \<open>cmd\<close> does, and what \<open>json.loads\<close> makes of a text. No token is
  set in the environment.
\<close>

definition gh_world ::
  "exn + proc \<Rightarrow> exn + proc \<Rightarrow> pystr list \<Rightarrow> exn + proc \<Rightarrow> (pystr \<Rightarrow> exn + run list) \<Rightarrow> world"
  where
  "gh_world version auth cmd listing loads =
     \<lparr>compose_file_exists = Inr False,
      create_subprocess_exec =
        (\<lambda>argv. if argv = gh_version then version
                else if argv = gh_auth_status then auth
                else if argv = cmd then listing
                else Inl (FileNotFoundError (u ''No such file or directory''))),
      time_start = 0,
      time_end = 0,
      getenv = (\<lambda>name. None),
      json_loads = loads\<rparr>"

definition gh_missing :: exn where
  "gh_missing =
     FileNotFoundError (u ''[Errno 2] No such file or directory: '' @ [39] @ u ''gh'' @ [39])"

definition loads_empty_array :: "pystr \<Rightarrow> exn + run list" where
  "loads_empty_array text =
     (if text = u ''[]'' then Inr [] else Inl (OtherError (u ''Expecting value'')))"

definition exits_ok :: proc where
  "exits_ok = Exits 0 0 (Utf8 []) (Utf8 [])"

section \<open>Facts about the text operations\<close>

lemma py_in_iff: "py_in pat s \<longleftrightarrow> (\<exists>p q. s = p @ pat @ q)"
proof (induction s)
  case Nil
  then show ?case by auto
next
  case (Cons c cs)
  show ?case
  proof
    assume "py_in pat (c # cs)"
    then consider "take (length pat) (c # cs) = pat" | "py_in pat cs" by auto
    then show "\<exists>p q. c # cs = p @ pat @ q"
    proof cases
      case 1
      then have "c # cs = [] @ pat @ drop (length pat) (c # cs)"
        by (metis append_Nil append_take_drop_id)
      then show ?thesis by blast
    next
      case 2
      with Cons obtain p q where "cs = p @ pat @ q" by auto
      then have "c # cs = (c # p) @ pat @ q" by simp
      then show ?thesis by blast
    qed
  next
    assume "\<exists>p q. c # cs = p @ pat @ q"
    then obtain p q where pq: "c # cs = p @ pat @ q" by auto
    show "py_in pat (c # cs)"
    proof (cases p)
      case Nil
      with pq have "take (length pat) (c # cs) = pat" by simp
      then show ?thesis by simp
    next
      case (Cons a p')
      with pq have "cs = p' @ pat @ q" by simp
      with Cons.IH show ?thesis by auto
    qed
  qed
qed

lemma py_split_not_Nil: "py_split sep s \<noteq> []"
  by (induction s) (auto split: list.splits)

lemma py_join_py_split: "py_join [sep] (py_split sep s) = s"
proof (induction s)
  case Nil
  then show ?case by simp
next
  case (Cons c cs)
  obtain l ls where sp: "py_split sep cs = l # ls"
    using py_split_not_Nil [of sep cs] by (cases "py_split sep cs") auto
  with Cons show ?case by (cases ls) auto
qed

lemma py_split_no_sep: "l \<in> set (py_split sep s) \<Longrightarrow> sep \<notin> set l"
  by (induction s arbitrary: l) (auto split: if_splits list.splits)

lemma length_py_split: "length (py_split sep s) = Suc (count_list s sep)"
  by (induction s) (auto split: list.splits simp: py_split_not_Nil)

lemma py_split_append_sep:
  "sep \<notin> set l \<Longrightarrow> py_split sep (l @ sep # s) = l # py_split sep s"
  by (induction l) (auto split: list.splits)

lemma py_split_no_sep_id: "sep \<notin> set l \<Longrightarrow> py_split sep l = [l]"
  by (induction l) (auto split: list.splits)

lemma py_split_py_join:
  "ls \<noteq> [] \<Longrightarrow> (\<And>l. l \<in> set ls \<Longrightarrow> sep \<notin> set l) \<Longrightarrow>
   py_split sep (py_join [sep] ls) = ls"
proof (induction "[sep]" ls rule: py_join.induct)
  case 1
  then show ?case by simp
next
  case (2 x)
  then show ?case by (simp add: py_split_no_sep_id)
next
  case (3 x y ys)
  then show ?case by (simp add: py_split_append_sep)
qed

lemma py_split_snoc:
  "py_split sep (s @ [c]) =
     (if c = sep then py_split sep s @ [[]]
      else butlast (py_split sep s) @ [last (py_split sep s) @ [c]])"
proof (induction s)
  case Nil
  then show ?case by simp
next
  case (Cons a s)
  obtain l ls where sp: "py_split sep s = l # ls"
    using py_split_not_Nil [of sep s] by (cases "py_split sep s") auto
  with Cons show ?case
    by (cases ls) (auto split: list.splits)
qed

lemma py_split_rev: "py_split sep (rev s) = rev (map rev (py_split sep s))"
proof (induction s)
  case Nil
  then show ?case by simp
next
  case (Cons a s)
  obtain l ls where sp: "py_split sep s = l # ls"
    using py_split_not_Nil [of sep s] by (cases "py_split sep s") auto
  with Cons show ?case
    by (auto simp: py_split_snoc)
qed

lemma hd_py_split: "s \<noteq> [] \<Longrightarrow> hd s \<noteq> sep \<Longrightarrow> hd (py_split sep s) \<noteq> []"
  by (cases s) (auto split: list.splits)

lemma last_py_split: "s \<noteq> [] \<Longrightarrow> last s \<noteq> sep \<Longrightarrow> last (py_split sep s) \<noteq> []"
proof -
  assume a: "s \<noteq> []" "last s \<noteq> sep"
  then have "rev s \<noteq> []" "hd (rev s) \<noteq> sep" by (simp_all add: hd_rev)
  then have "hd (py_split sep (rev s)) \<noteq> []" by (rule hd_py_split)
  then show ?thesis
    using py_split_not_Nil [of sep s] by (simp add: py_split_rev hd_rev last_map)
qed

lemma py_strip_fixed:
  assumes "s = [] \<or> (\<not> py_isspace (hd s) \<and> \<not> py_isspace (last s))"
  shows "py_strip s = s"
proof (cases s)
  case Nil
  then show ?thesis by (simp add: py_strip_def)
next
  case (Cons a list)
  with assms have h: "\<not> py_isspace a" and l: "\<not> py_isspace (last s)" by auto
  from Cons h have 1: "dropWhile py_isspace s = s" by simp
  from Cons obtain b bs where rs: "rev s = b # bs" by (cases "rev s") auto
  from Cons have "hd (rev s) = last s" by (simp add: hd_rev)
  with rs have "b = last s" by simp
  with l have "dropWhile py_isspace (b # bs) = b # bs" by simp
  then have 2: "dropWhile py_isspace (rev s) = rev s" by (simp only: rs)
  show ?thesis unfolding py_strip_def 1 2 by simp
qed

lemma py_strip_ends:
  assumes "py_strip s \<noteq> []"
  shows "\<not> py_isspace (hd (py_strip s)) \<and> \<not> py_isspace (last (py_strip s))"
proof -
  define d where "d = dropWhile py_isspace s"
  define e where "e = dropWhile py_isspace (rev d)"
  have st: "py_strip s = rev e" by (simp add: py_strip_def d_def e_def)
  with assms have ne: "e \<noteq> []" by simp
  then have he: "\<not> py_isspace (hd e)" unfolding e_def by (metis hd_dropWhile)
  have "rev d = takeWhile py_isspace (rev d) @ e" by (simp add: e_def)
  with ne have le: "last e = last (rev d)" by (metis last_appendR)
  from ne have dne: "d \<noteq> []" by (auto simp: e_def)
  then have "\<not> py_isspace (hd d)" unfolding d_def by (metis hd_dropWhile)
  with le dne have "\<not> py_isspace (last e)" by (simp add: last_rev)
  with he ne show ?thesis by (simp add: st hd_rev last_rev)
qed

lemma py_strip_idem: "py_strip (py_strip s) = py_strip s"
  using py_strip_ends [of s] by (intro py_strip_fixed) blast

lemma nb_iff: "py_strip l \<noteq> [] \<longleftrightarrow> (\<exists>c \<in> set l. \<not> py_isspace c)"
proof -
  have "py_strip l = [] \<longleftrightarrow> (\<forall>x \<in> set (dropWhile py_isspace l). py_isspace x)"
    by (simp add: py_strip_def dropWhile_eq_Nil_conv)
  also have "\<dots> \<longleftrightarrow> dropWhile py_isspace l = []"
  proof (cases "dropWhile py_isspace l")
    case Nil
    show ?thesis unfolding Nil by simp
  next
    case (Cons a as)
    then have "\<not> py_isspace a" by (metis hd_dropWhile list.sel(1) list.distinct(1))
    with Cons show ?thesis by auto
  qed
  also have "\<dots> \<longleftrightarrow> (\<forall>x \<in> set l. py_isspace x)"
    by (simp add: dropWhile_eq_Nil_conv)
  finally show ?thesis by blast
qed

lemma nb_rev: "(py_strip (rev l) \<noteq> []) = (py_strip l \<noteq> [])"
  by (simp add: nb_iff)

section \<open>Properties of the classifier\<close>

lemma any_word_in_iff:
  "any_word_in ws line \<longleftrightarrow> (\<exists>w \<in> set ws. \<exists>p q. py_lower line = p @ w @ q)"
  by (simp add: any_word_in_def list_ex_iff py_in_iff)

lemma lower_cp_fixed: "c' \<in> set (lower_cp c) \<Longrightarrow> lower_cp c' = [c']"
  by (auto simp: lower_cp_def split: if_splits)

lemma py_lower_idem: "py_lower (py_lower s) = py_lower s"
proof -
  have "concat (map lower_cp xs) = xs" if "\<And>c. c \<in> set xs \<Longrightarrow> lower_cp c = [c]" for xs
    using that by (induction xs) auto
  from this [of "concat (map lower_cp s)"] show ?thesis
    unfolding py_lower_def by (auto intro: lower_cp_fixed)
qed

text \<open>
  Claim C2, as the code has it. Every line gets one tag, found by substring tests on the
  lowered line in the order success words, \<open>warning\<close>, \<open>error\<close>, else PLAIN; the tests
  ignore case; a line with both \<open>error\<close> and \<open>success\<close> in it is SUCCESS. The line
  \<open>Build succeeded despite 1 error warning\<close> is tagged WARNING: \<open>succeeded\<close> contains
  none of \<open>success\<close>, \<open>passed\<close>, \<open>complete\<close>, and \<open>warning\<close> is tested before \<open>error\<close>.
\<close>

theorem classify_line_priority:
  "classify_line line =
     (if \<exists>w \<in> {u ''success'', u ''passed'', u ''complete''}. \<exists>p q. py_lower line = p @ w @ q
      then SUCCESS
      else if \<exists>p q. py_lower line = p @ u ''warning'' @ q then WARNING
      else if \<exists>p q. py_lower line = p @ u ''error'' @ q then ERROR
      else PLAIN) \<and>
   ((\<exists>p q. py_lower line = p @ u ''success'' @ q) \<and>
    (\<exists>p q. py_lower line = p @ u ''error'' @ q) \<longrightarrow> classify_line line = SUCCESS) \<and>
   classify_line (py_lower line) = classify_line line \<and>
   classify_line (u ''Build succeeded despite 1 error warning'') = WARNING"
proof -
  have 1: "classify_line line =
     (if \<exists>w \<in> {u ''success'', u ''passed'', u ''complete''}. \<exists>p q. py_lower line = p @ w @ q
      then SUCCESS
      else if \<exists>p q. py_lower line = p @ u ''warning'' @ q then WARNING
      else if \<exists>p q. py_lower line = p @ u ''error'' @ q then ERROR
      else PLAIN)"
    unfolding classify_line_def any_word_in_iff by simp
  have 2: "classify_line line = SUCCESS"
    if "\<exists>p q. py_lower line = p @ u ''success'' @ q"
    using that unfolding 1 by auto
  have 3: "classify_line (py_lower line) = classify_line line"
    by (simp add: classify_line_def any_word_in_def py_lower_idem)
  have 4: "classify_line (u ''Build succeeded despite 1 error warning'') = WARNING"
    by (simp add: classify_line_def any_word_in_def u_def py_lower_def lower_cp_def)
  from 1 2 3 4 show ?thesis by blast
qed

theorem classify_line_priority_witness:
  "classify_line (u ''ERROR: no Success'') = SUCCESS \<and>
   classify_line (u ''An Error and a WARNING'') = WARNING \<and>
   classify_line (u ''Fatal ERROR'') = ERROR \<and>
   classify_line (u ''Checking...'') = PLAIN"
proof -
  have e: "(\<exists>p q. s = p @ w @ q) \<longleftrightarrow> py_in w s" for w s :: pystr
    by (simp add: py_in_iff)
  have l: "py_lower (u ''ERROR: no Success'') = u ''error: no success''"
    by (simp add: py_lower_def lower_cp_def u_def)
  have a: "py_in (u ''success'') (u ''error: no success'')"
    and b: "py_in (u ''error'') (u ''error: no success'')"
    by (simp_all add: u_def)
  have "classify_line (u ''ERROR: no Success'') = SUCCESS"
    using classify_line_priority [of "u ''ERROR: no Success''", unfolded e l] a b by blast
  moreover have "classify_line (u ''An Error and a WARNING'') = WARNING"
    "classify_line (u ''Fatal ERROR'') = ERROR"
    "classify_line (u ''Checking...'') = PLAIN"
    by (simp_all add: classify_line_def any_word_in_def u_def py_lower_def lower_cp_def)
  ultimately show ?thesis by blast
qed

text \<open>
  The line \<open>Build succeeded despite 1 error warning\<close> is not tagged SUCCESS.
\<close>

theorem succeeded_line_is_warning:
  "classify_line (u ''Build succeeded despite 1 error warning'') \<noteq> SUCCESS"
  by (simp add: classify_line_def any_word_in_def u_def py_lower_def lower_cp_def)

lemma icon_no_newline: "10 \<notin> set (icon t)"
  by (cases t) simp_all

lemma classify_lines: "map snd (classify output) = py_split 10 (py_strip output)"
  by (simp add: classify_def comp_def)

lemma classify_not_Nil: "classify output \<noteq> []"
  by (simp add: classify_def py_split_not_Nil)

lemma rendered_lines:
  "py_split 10 (format_command_output output) = map render_line (classify output)"
proof -
  have "10 \<notin> set l" if "l \<in> set (map render_line (classify output))" for l
  proof -
    from that obtain t x where tx: "(t, x) \<in> set (classify output)" and l: "l = icon t @ x"
      by auto
    from tx have "x \<in> set (py_split 10 (py_strip output))" by (auto simp: classify_def)
    then have "10 \<notin> set x" by (rule py_split_no_sep)
    with l show ?thesis by (simp add: icon_no_newline)
  qed
  then show ?thesis
    unfolding format_command_output_def
    by (intro py_split_py_join) (simp_all add: classify_not_Nil)
qed

lemma classify_line_empty: "classify_line [] = PLAIN"
  by (simp add: classify_line_def any_word_in_def py_lower_def u_def)

lemma classify_outer_lines:
  "(py_strip output = [] \<longrightarrow> classify output = [(PLAIN, [])]) \<and>
   (py_strip output \<noteq> [] \<longrightarrow>
      snd (hd (classify output)) \<noteq> [] \<and> snd (last (classify output)) \<noteq> [])"
proof (cases "py_strip output = []")
  case True
  then show ?thesis by (simp add: classify_def classify_line_empty)
next
  case False
  have nl: "py_isspace 10" by (simp add: py_isspace_def)
  from py_strip_ends [OF False] nl
  have "hd (py_strip output) \<noteq> 10" "last (py_strip output) \<noteq> 10"
    by metis+
  with False have "hd (py_split 10 (py_strip output)) \<noteq> []"
    "last (py_split 10 (py_strip output)) \<noteq> []"
    by (simp_all add: hd_py_split last_py_split)
  with False show ?thesis
    by (simp add: classify_def hd_map last_map py_split_not_Nil)
qed

text \<open>
  Claim C4, as the code has it. The classifier strips the whole text of leading and
  trailing whitespace, newlines included, and splits what is left at every newline. It
  gives one classified line per segment of the stripped text, empty segments between two
  newlines included, in the order of the text; joined by newlines the lines give the
  stripped text back, and the rendered output has the same lines with their icons. The
  first and the last line are never empty, except for the single empty line of a text
  that is blank altogether.
\<close>

theorem classify_lines_of_stripped_text:
  "map snd (classify output) = py_split 10 (py_strip output) \<and>
   classify output \<noteq> [] \<and>
   (\<forall>l \<in> set (map snd (classify output)). 10 \<notin> set l) \<and>
   py_join [10] (map snd (classify output)) = py_strip output \<and>
   length (classify output) = Suc (count_list (py_strip output) 10) \<and>
   py_split 10 (format_command_output output) = map render_line (classify output) \<and>
   (py_strip output = [] \<longrightarrow> classify output = [(PLAIN, [])]) \<and>
   (py_strip output \<noteq> [] \<longrightarrow>
      snd (hd (classify output)) \<noteq> [] \<and> snd (last (classify output)) \<noteq> [])"
proof -
  have "length (classify output) = length (map snd (classify output))" by simp
  also have "\<dots> = Suc (count_list (py_strip output) 10)"
    unfolding classify_lines by (rule length_py_split)
  finally have len: "length (classify output) = Suc (count_list (py_strip output) 10)" .
  have nl: "\<forall>l \<in> set (map snd (classify output)). 10 \<notin> set l"
    unfolding classify_lines using py_split_no_sep by blast
  have j: "py_join [10] (map snd (classify output)) = py_strip output"
    unfolding classify_lines by (rule py_join_py_split)
  from len nl j show ?thesis
    using classify_lines classify_not_Nil rendered_lines classify_outer_lines by blast
qed

lemma strip_ex1: "py_strip (u ''  a'' @ [10, 10] @ u ''b '' @ [10]) = [97, 10, 10, 98]"
  by (simp add: py_strip_def py_isspace_def u_def)

theorem classify_lines_of_stripped_text_witness:
  "classify (u ''  a'' @ [10, 10] @ u ''b '' @ [10]) = [(PLAIN, u ''a''), (PLAIN, []), (PLAIN, u ''b'')] \<and>
   py_split 10 (format_command_output (u ''  a'' @ [10, 10] @ u ''b '' @ [10])) = [u ''a'', [], u ''b'']"
proof -
  let ?s = "u ''  a'' @ [10, 10] @ u ''b '' @ [10]"
  have c: "classify ?s = [(PLAIN, u ''a''), (PLAIN, []), (PLAIN, u ''b'')]"
    unfolding classify_def strip_ex1
    by (simp add: classify_line_def any_word_in_def py_lower_def lower_cp_def u_def)
  show ?thesis
    using c classify_lines_of_stripped_text [of ?s] by simp
qed

text \<open>
  Without the strip the count would differ: \<open>a\<close> followed by two newlines has three
  segments and gives one classified line, and a text that starts with a newline loses
  its empty first line.
\<close>

theorem classifier_drops_outer_empty_lines:
  "length (classify [97, 10, 10]) = 1 \<and> length (py_split 10 [97, 10, 10]) = 3 \<and>
   map snd (classify [10, 97]) = [[97]] \<and> py_split 10 [10, 97] = [[], [97]]"
  by (simp add: classify_def py_strip_def py_isspace_def)

lemma py_lower_icon: "py_lower (icon t @ line) = icon t @ py_lower line"
  by (cases t) (simp_all add: py_lower_def lower_cp_def)

lemma keyword_skips_icon:
  assumes "w \<in> {u ''success'', u ''passed'', u ''complete'', u ''warning'', u ''error''}"
  shows "py_in w (icon t @ s) = py_in w s"
  using assms by (cases t) (auto simp: u_def)

lemma classify_line_icon: "classify_line (icon t @ line) = classify_line line"
  by (simp add: classify_line_def any_word_in_def py_lower_icon keyword_skips_icon)

lemma unrender_lines:
  "map (\<lambda>(t, line). drop (length (icon t)) line)
       (zip (map fst cls) (map render_line cls)) = map snd cls"
  by (induction cls) auto

text \<open>
  Claim C9. Take the rendered output, remove from each line the icon the classifier put
  there, and classify the result: the tagged lines are those of the first classification.
  The tag of a line is a function of the line alone, and an icon in front of a line does
  not change it, so the rendered lines carry their tags with or without the icons.
\<close>

theorem reclassify_after_stripping_icons:
  "classify (strip_icons (map fst (classify output)) (format_command_output output)) =
     classify output \<and>
   map classify_line (py_split 10 (format_command_output output)) =
     map fst (classify output) \<and>
   map fst (classify output) = map classify_line (map snd (classify output))"
proof -
  have s: "strip_icons (map fst (classify output)) (format_command_output output) =
             py_strip output"
    unfolding strip_icons_def rendered_lines unrender_lines
    by (simp add: classify_def comp_def py_join_py_split)
  have a: "classify (py_strip output) = classify output"
    by (simp add: classify_def py_strip_idem)
  have b: "map classify_line (map render_line cls) = map fst cls"
    if "\<forall>(t, l) \<in> set cls. t = classify_line l" for cls
    using that by (induction cls) (auto simp: classify_line_icon)
  have c: "map classify_line (py_split 10 (format_command_output output)) =
             map fst (classify output)"
    unfolding rendered_lines by (rule b) (auto simp: classify_def)
  have d: "map fst (classify output) = map classify_line (map snd (classify output))"
    by (simp add: classify_def comp_def)
  show ?thesis
    unfolding s a using c d by blast
qed

section \<open>Properties of the error formatter\<close>

lemma nonblank_lines_lstrip:
  "nonblank_lines (dropWhile py_isspace s) =
     (case nonblank_lines s of [] \<Rightarrow> [] | l # ls \<Rightarrow> dropWhile py_isspace l # ls)"
proof (induction s)
  case Nil
  then show ?case by (simp add: nonblank_lines_def py_strip_def)
next
  case (Cons c cs)
  obtain l ls where sp: "py_split 10 cs = l # ls"
    using py_split_not_Nil [of 10 cs] by (cases "py_split 10 cs") auto
  show ?case
  proof (cases "py_isspace c")
    case True
    show ?thesis
    proof (cases "c = 10")
      case True
      with Cons \<open>py_isspace c\<close> show ?thesis
        by (simp add: nonblank_lines_def py_strip_def)
    next
      case False
      with Cons True sp show ?thesis
        by (auto simp: nonblank_lines_def nb_iff)
    qed
  next
    case False
    then have "c \<noteq> 10" by (auto simp: py_isspace_def)
    with False sp show ?thesis
      by (auto simp: nonblank_lines_def nb_iff)
  qed
qed

lemma nonblank_lines_rstrip:
  "nonblank_lines (rev (dropWhile py_isspace (rev s))) =
     (case nonblank_lines s of
        [] \<Rightarrow> []
      | l # ls \<Rightarrow> butlast (l # ls) @ [py_rstrip (last (l # ls))])"
proof -
  have fr: "filter (\<lambda>l. py_strip l \<noteq> []) (rev (map rev X)) =
              rev (map rev (filter (\<lambda>l. py_strip l \<noteq> []) X))" for X
    by (induction X) (auto simp: nb_rev)
  have nr: "nonblank_lines (rev t) = rev (map rev (nonblank_lines t))" for t
    by (simp add: nonblank_lines_def py_split_rev fr)
  have "nonblank_lines (rev (dropWhile py_isspace (rev s))) =
          rev (map rev (nonblank_lines (dropWhile py_isspace (rev s))))"
    by (rule nr)
  also have "nonblank_lines (dropWhile py_isspace (rev s)) =
          (case rev (map rev (nonblank_lines s)) of
             [] \<Rightarrow> [] | l # ls \<Rightarrow> dropWhile py_isspace l # ls)"
    unfolding nonblank_lines_lstrip nr ..
  finally have e: "nonblank_lines (rev (dropWhile py_isspace (rev s))) =
          rev (map rev (case rev (map rev (nonblank_lines s)) of
             [] \<Rightarrow> [] | l # ls \<Rightarrow> dropWhile py_isspace l # ls))" .
  show ?thesis
  proof (cases "nonblank_lines s" rule: rev_cases)
    case Nil
    with e show ?thesis by simp
  next
    case (snoc ys y)
    with e have "nonblank_lines (rev (dropWhile py_isspace (rev s))) = ys @ [py_rstrip y]"
      by (simp add: py_rstrip_def rev_map)
    with snoc show ?thesis by (cases ys) (auto simp: butlast_append)
  qed
qed

lemma nonblank_lines_strip: "nonblank_lines (py_strip s) = trim_ends (nonblank_lines s)"
proof -
  have "nonblank_lines (py_strip s) =
          (case nonblank_lines (dropWhile py_isspace s) of
             [] \<Rightarrow> []
           | l # ls \<Rightarrow> butlast (l # ls) @ [py_rstrip (last (l # ls))])"
    unfolding py_strip_def by (rule nonblank_lines_rstrip)
  then show ?thesis
    unfolding nonblank_lines_lstrip
    by (cases "nonblank_lines s") (simp_all add: py_lstrip_def Let_def)
qed

lemma marker_line_no_newline:
  "l \<in> set (nonblank_lines s) \<Longrightarrow> 10 \<notin> set ([0x1F525, 32] @ l)"
  by (auto simp: nonblank_lines_def dest: py_split_no_sep)

text \<open>
  Claim C10, as the code has it. The error formatter strips the whole text first. It then
  emits, in order, the lines of the stripped text that are not blank, each behind the same
  marker (U+1F525 and a space); blank and whitespace-only lines are left out, and a text
  with no other lines gives the empty string. Against the text as it came in, these are
  its non-blank lines with the leading whitespace of the first and the trailing
  whitespace of the last removed.
\<close>

theorem error_output_lines:
  "format_error_output output =
     py_join [10] (map (\<lambda>line. [0x1F525, 32] @ line) (nonblank_lines (py_strip output))) \<and>
   (nonblank_lines (py_strip output) \<noteq> [] \<longrightarrow>
      py_split 10 (format_error_output output) =
        map (\<lambda>line. [0x1F525, 32] @ line) (nonblank_lines (py_strip output))) \<and>
   (nonblank_lines (py_strip output) = [] \<longrightarrow> format_error_output output = []) \<and>
   nonblank_lines (py_strip output) = trim_ends (nonblank_lines output) \<and>
   length (nonblank_lines (py_strip output)) = length (nonblank_lines output)"
proof -
  let ?ls = "nonblank_lines (py_strip output)"
  have 1: "format_error_output output = py_join [10] (map (\<lambda>line. [0x1F525, 32] @ line) ?ls)"
    by (simp add: format_error_output_def nonblank_lines_def)
  have 2: "py_split 10 (format_error_output output) = map (\<lambda>line. [0x1F525, 32] @ line) ?ls"
    if "?ls \<noteq> []"
    unfolding 1 using that marker_line_no_newline [of _ "py_strip output"]
    by (intro py_split_py_join) auto
  have 3: "format_error_output output = []" if "?ls = []"
    unfolding 1 using that by simp
  have 4: "?ls = trim_ends (nonblank_lines output)" by (rule nonblank_lines_strip)
  have "length (trim_ends xs) = length xs" for xs
    by (cases xs) (simp_all add: Let_def)
  with 4 have 5: "length ?ls = length (nonblank_lines output)" by simp
  from 1 2 3 4 5 show ?thesis by blast
qed

theorem error_output_lines_witness:
  "format_error_output (u ''  boom '' @ [10] @ u ''   '' @ [10, 10] @ u '' at line 3  '' @ [10]) =
     [0x1F525] @ u '' boom '' @ [10, 0x1F525] @ u ''  at line 3'' \<and>
   format_error_output (u ''  '' @ [10, 10]) = []"
proof -
  let ?s = "u ''  boom '' @ [10] @ u ''   '' @ [10, 10] @ u '' at line 3  '' @ [10]"
  let ?t = "u ''  '' @ [10, 10]"
  have s: "nonblank_lines (py_strip ?s) = [u ''boom '', u '' at line 3'']"
    by (simp add: nonblank_lines_def py_strip_def py_isspace_def u_def)
  have t: "nonblank_lines (py_strip ?t) = []"
    by (simp add: nonblank_lines_def py_strip_def py_isspace_def u_def)
  have a: "format_error_output ?s =
             py_join [10] (map (\<lambda>line. [0x1F525, 32] @ line) (nonblank_lines (py_strip ?s)))"
    using error_output_lines [of ?s] by blast
  have b: "format_error_output ?t = []"
    using error_output_lines [of ?t] t by blast
  show ?thesis
    unfolding a s b by (simp add: u_def)
qed

text \<open>
  The formatter does not emit the first line of \<open>" a"\<close> as it stands: the line comes
  out without its leading space.
\<close>

theorem error_output_trims_first_line:
  "format_error_output [32, 97] = [0x1F525, 32, 97] \<and>
   py_join [10] (map (\<lambda>line. [0x1F525, 32] @ line) (nonblank_lines [32, 97])) =
     [0x1F525, 32, 32, 97]"
  by (simp add: format_error_output_def nonblank_lines_def py_strip_def py_isspace_def)

section \<open>Properties of the duration format\<close>

lemma str_nat_digits: "str_nat n \<noteq> [] \<and> (\<forall>d \<in> set (str_nat n). 48 \<le> d \<and> d \<le> 57)"
proof (induction n rule: str_nat.induct)
  case (1 n)
  show ?case
  proof (cases "n < 10")
    case True
    then show ?thesis by (simp add: str_nat.simps [of n])
  next
    case False
    have "n mod 10 < 10" by simp
    then have "48 + n mod 10 \<le> 57" by linarith
    with False 1 show ?thesis by (simp add: str_nat.simps [of n])
  qed
qed

lemma round_half_even_near: "\<bar>of_int (round_half_even q) - q\<bar> \<le> 1 / 2"
proof -
  define f where "f = \<lfloor>q\<rfloor>"
  define r where "r = q - of_int f"
  have r: "0 \<le> r" "r < 1" unfolding r_def f_def by linarith+
  have q: "q = of_int f + r" by (simp add: r_def)
  consider "r < 1 / 2" | "1 / 2 < r" | "r = 1 / 2" by linarith
  then show ?thesis
  proof cases
    case 1
    then have "round_half_even q = f" by (simp add: round_half_even_def f_def r_def Let_def)
    with 1 r show ?thesis by (simp add: q)
  next
    case 2
    then have "round_half_even q = f + 1" by (simp add: round_half_even_def f_def r_def Let_def)
    with 2 r show ?thesis by (simp add: q)
  next
    case 3
    then have "round_half_even q = f \<or> round_half_even q = f + 1"
      by (simp add: round_half_even_def f_def r_def Let_def)
    with 3 show ?thesis by (auto simp: q)
  qed
qed

lemma floor_numeral_div:
  "\<lfloor>(numeral a / numeral b :: rat)\<rfloor> = numeral a div numeral b"
  using floor_divide_of_int_eq [of "numeral a" "numeral b", where ?'a = rat] by simp

lemma fmt_2f_shape:
  "\<exists>ds d1 d2. fmt_2f x = (if x < 0 then [45] else []) @ ds @ [46, d1, d2] \<and>
     ds \<noteq> [] \<and> (\<forall>d \<in> set (ds @ [d1, d2]). 48 \<le> d \<and> d \<le> 57)"
proof -
  define n where "n = nat (round_half_even (\<bar>x\<bar> * 100))"
  have a: "(n mod 100) div 10 < 10" by (simp add: less_mult_imp_div_less)
  have b: "n mod 10 < 10" by simp
  have "fmt_2f x = (if x < 0 then [45] else []) @ str_nat (n div 100) @
          [46, 48 + (n mod 100) div 10, 48 + n mod 10]"
    by (simp add: fmt_2f_def n_def Let_def)
  moreover have "\<forall>d \<in> set (str_nat (n div 100) @ [48 + (n mod 100) div 10, 48 + n mod 10]).
                   48 \<le> d \<and> d \<le> 57"
    using a b str_nat_digits [of "n div 100"] by auto
  ultimately show ?thesis using str_nat_digits [of "n div 100"] by blast
qed

lemma fmt_ex1: "fmt_2f (5 / 4) = u ''1.25''"
  by (simp add: fmt_2f_def round_half_even_def Let_def floor_numeral_div str_nat.simps u_def)

lemma fmt_ex2: "fmt_2f (- (3 / 2)) = u ''-1.50''"
  by (simp add: fmt_2f_def round_half_even_def Let_def floor_numeral_div str_nat.simps u_def)

lemma fmt_ex3: "fmt_2f (1 / 8) = u ''0.12''"
  by (simp add: fmt_2f_def round_half_even_def Let_def floor_numeral_div str_nat.simps u_def)

section \<open>Properties of the environment validator\<close>

lemma validate_cases:
  "validate_docker_environment w =
     (case compose_file_exists w of
        Inl e \<Rightarrow> ([], Returned False)
      | Inr b \<Rightarrow>
          if \<not> b then ([], Returned False)
          else (case create_subprocess_exec w docker_ps of
                  Inl e \<Rightarrow> ([docker_ps], Returned False)
                | Inr Hangs \<Rightarrow> ([docker_ps], Pending)
                | Inr (Exits t rc out err) \<Rightarrow> ([docker_ps], Returned (rc = 0))))"
  by (simp add: validate_docker_environment_def validate_body_def
           split: sum.splits bool.splits proc.splits)

lemma validate_log: "set (fst (validate_docker_environment w)) \<subseteq> {docker_ps}"
  by (simp add: validate_cases split: sum.splits proc.splits)


lemma validate_docker_world:
  "validate_docker_environment (docker_world fe prc cmd p el) =
     (if fe then ([docker_ps], Returned (prc = 0)) else ([], Returned False))"
  by (simp add: validate_cases docker_world_def)

lemma spawn_docker_world:
  "cmd \<noteq> docker_ps \<Longrightarrow> create_subprocess_exec (docker_world fe prc cmd p el) cmd = Inr p"
  by (simp add: docker_world_def)

lemma lint_cmd_eq: "build_cmd (u ''lint'') False = lint_cmd"
  by (simp add: build_cmd_def lint_cmd_def)

lemma lint_cmd_not_probe: "lint_cmd \<noteq> docker_ps"
  by (simp add: lint_cmd_def docker_ps_def u_def)

text \<open>
  Claim C7. The validator returns true exactly when \<open>docker-compose.yml\<close> exists and the
  \<open>docker ps\<close> probe ends with code 0. A missing file, an exception from the existence
  test or from launching the probe, and a probe that ends with another code all give
  false, and the call never raises.
\<close>

theorem validator_true_iff_file_and_probe:
  "(snd (validate_docker_environment w) = Returned True \<longleftrightarrow>
      compose_file_exists w = Inr True \<and>
      (\<exists>t out err. create_subprocess_exec w docker_ps = Inr (Exits t 0 out err))) \<and>
   (compose_file_exists w \<noteq> Inr True \<or>
    (\<exists>e. create_subprocess_exec w docker_ps = Inl e) \<or>
    (\<exists>t rc out err. create_subprocess_exec w docker_ps = Inr (Exits t rc out err) \<and> rc \<noteq> 0)
      \<longrightarrow> snd (validate_docker_environment w) = Returned False) \<and>
   (\<forall>e. snd (validate_docker_environment w) \<noteq> Raised e)"
  by (auto simp add: validate_cases split: sum.splits proc.splits)

theorem validator_true_iff_file_and_probe_witness:
  "snd (validate_docker_environment (docker_world True 0 lint_cmd Hangs 0)) = Returned True \<and>
   snd (validate_docker_environment (docker_world False 0 lint_cmd Hangs 0)) = Returned False \<and>
   snd (validate_docker_environment (docker_world True 1 lint_cmd Hangs 0)) = Returned False \<and>
   snd (validate_docker_environment
          ((docker_world True 0 lint_cmd Hangs 0)
             \<lparr>create_subprocess_exec := \<lambda>argv. Inl (FileNotFoundError (u ''docker''))\<rparr>)) =
     Returned False"
  using validator_true_iff_file_and_probe [of "docker_world True 0 lint_cmd Hangs 0"]
    validator_true_iff_file_and_probe [of "docker_world False 0 lint_cmd Hangs 0"]
    validator_true_iff_file_and_probe [of "docker_world True 1 lint_cmd Hangs 0"]
    validator_true_iff_file_and_probe
      [of "(docker_world True 0 lint_cmd Hangs 0)
             \<lparr>create_subprocess_exec := \<lambda>argv. Inl (FileNotFoundError (u ''docker''))\<rparr>"]
  by (simp add: docker_world_def)

section \<open>Properties of the command executor\<close>

lemma build_cmd_not_probe: "build_cmd command compose_command \<noteq> docker_ps"
  by (simp add: build_cmd_def docker_ps_def u_def)

lemma newline_free_message: "10 \<notin> set validation_failed_message"
  by (simp add: validation_failed_message_def u_def)

text \<open>
  Claim C6. When the validator returns false, the report is the environment-failure
  message and nothing else (one line: no command line, no duration, no output section),
  and the only child launched, if any, is the validator's own probe: the operation's
  command is never handed to \<open>create_subprocess_exec\<close>.
\<close>

theorem validation_failure_short_circuits:
  assumes "snd (validate_docker_environment w) = Returned False"
  shows "snd (run_docker_command w command description timeout compose_command) =
           Returned ([0x274C] @ u '' Docker environment validation failed. Please ensure Docker is running and docker-compose.yml exists.'') \<and>
         length (py_split 10 validation_failed_message) = 1 \<and>
         fst (run_docker_command w command description timeout compose_command) =
           fst (validate_docker_environment w) \<and>
         set (fst (run_docker_command w command description timeout compose_command))
           \<subseteq> {docker_ps} \<and>
         build_cmd command compose_command \<notin>
           set (fst (run_docker_command w command description timeout compose_command))"
proof -
  obtain lg where v: "validate_docker_environment w = (lg, Returned False)"
    using assms by (cases "validate_docker_environment w") auto
  have r: "run_docker_command w command description timeout compose_command =
             (lg, Returned validation_failed_message)"
    by (simp add: run_docker_command_def run_body_def v)
  have l: "set lg \<subseteq> {docker_ps}" using validate_log [of w] by (simp add: v)
  have "build_cmd command compose_command \<notin> set lg"
    using l build_cmd_not_probe [of command compose_command] by auto
  with r l v show ?thesis
    by (simp add: py_split_no_sep_id newline_free_message)
       (simp add: validation_failed_message_def)
qed

theorem validation_failure_short_circuits_witness:
  "run_docker_command
     (docker_world False 0 lint_cmd (Exits 1 0 (Utf8 lint_stdout) (Utf8 [])) 1)
     (u ''lint'') lint_description 300 False =
   ([], Returned ([0x274C] @ u '' Docker environment validation failed. Please ensure Docker is running and docker-compose.yml exists.''))"
proof -
  let ?w = "docker_world False 0 lint_cmd (Exits 1 0 (Utf8 lint_stdout) (Utf8 [])) 1"
  have v: "validate_docker_environment ?w = ([], Returned False)"
    by (simp add: validate_docker_world)
  then have "snd (validate_docker_environment ?w) = Returned False" by simp
  from validation_failure_short_circuits [OF this, of "u ''lint''" lint_description 300 False]
  show ?thesis by (simp add: v prod_eq_iff)
qed





lemma run_completed:
  assumes "snd (validate_docker_environment w) = Returned True"
    and "create_subprocess_exec w (build_cmd command compose_command) = Inr (Exits t rc out err)"
    and "t \<le> of_int timeout"
  shows "run_docker_command w command description timeout compose_command =
           (fst (validate_docker_environment w) @ [build_cmd command compose_command],
            case completed_report description (build_cmd command compose_command)
                   (time_end w - time_start w) rc out err of
              Inl e \<Rightarrow> Returned ([0x274C] @ u '' Error executing command: '' @ str_exn e)
            | Inr rep \<Rightarrow> Returned rep)"
proof -
  obtain lg where v: "validate_docker_environment w = (lg, Returned True)"
    using assms(1) by (cases "validate_docker_environment w") auto
  from assms(3) have "\<not> of_int timeout < t" by simp
  then show ?thesis
    using assms(2)
    by (simp add: run_docker_command_def run_body_def v Let_def split: sum.splits)
qed

lemma completed_report_utf8:
  "completed_report description cmd et rc (Utf8 otext) (if rc = 0 then err else Utf8 etext) =
     Inr (py_join [10]
       ([[0x1F680, 32] @ description,
         [0x1F4CB] @ u '' Command: '' @ py_join [32] cmd,
         [0x23F1, 0xFE0F] @ u ''  Execution time: '' @ fmt_2f et @ u ''s'',
         []] @
        (if rc = 0 then
           [[0x2705] @ u '' Success!''] @
           (if otext = [] then []
            else [[0x1F4C4] @ u '' Output:'', format_command_output otext])
         else
           [[0x274C] @ u '' Failed with exit code '' @ str_int rc] @
           (if etext = [] then []
            else [[0x1F525] @ u '' Error output:'', format_error_output etext]) @
           (if otext = [] then []
            else [[0x1F4C4] @ u '' Standard output:'', format_command_output otext]))))"
  by (simp add: completed_report_def stream_section_def report_head_def success_banner_def
        failure_banner_def Let_def)

text \<open>
  Claim C5, as the code has it. For a run that passed validation and ended within the
  timeout, and whose captured streams decode as UTF-8 where the report shows them, the
  report is, in this order: the title with the description, the command line with the
  argument vector that was launched (joined by spaces), the duration as the difference of
  the two clock readings with two decimals, an empty line, and then either the success
  banner and, if stdout is not empty, a header and the classified stdout (exit code 0), or
  the failure banner with the exit code and, for each of stderr and stdout that is not
  empty, a header and the formatted stream, stderr first. The duration carries no minus
  sign when the clock did not go back between the two readings.
\<close>

theorem completed_report_layout:
  assumes "snd (validate_docker_environment w) = Returned True"
    and "create_subprocess_exec w (build_cmd command compose_command) = Inr (Exits t rc out err)"
    and "t \<le> of_int timeout"
    and "out = Utf8 otext"
    and "rc = 0 \<or> err = Utf8 etext"
  shows "snd (run_docker_command w command description timeout compose_command) =
     Returned (py_join [10]
       ([[0x1F680, 32] @ description,
         [0x1F4CB] @ u '' Command: '' @ py_join [32] (build_cmd command compose_command),
         [0x23F1, 0xFE0F] @ u ''  Execution time: '' @ fmt_2f (time_end w - time_start w) @
           u ''s'',
         []] @
        (if rc = 0 then
           [[0x2705] @ u '' Success!''] @
           (if otext = [] then []
            else [[0x1F4C4] @ u '' Output:'', format_command_output otext])
         else
           [[0x274C] @ u '' Failed with exit code '' @ str_int rc] @
           (if etext = [] then []
            else [[0x1F525] @ u '' Error output:'', format_error_output etext]) @
           (if otext = [] then []
            else [[0x1F4C4] @ u '' Standard output:'', format_command_output otext])))) \<and>
   last (fst (run_docker_command w command description timeout compose_command)) =
     build_cmd command compose_command \<and>
   (\<exists>ds d1 d2.
      fmt_2f (time_end w - time_start w) =
        (if time_end w < time_start w then [45] else []) @ ds @ [46, d1, d2] \<and>
      ds \<noteq> [] \<and> (\<forall>d \<in> set (ds @ [d1, d2]). 48 \<le> d \<and> d \<le> 57)) \<and>
   \<bar>of_int (round_half_even (\<bar>time_end w - time_start w\<bar> * 100)) -
      \<bar>time_end w - time_start w\<bar> * 100\<bar> \<le> 1 / 2"
proof -
  have e: "err = (if rc = 0 then err else Utf8 etext)" using assms(5) by auto
  have c: "completed_report description (build_cmd command compose_command)
             (time_end w - time_start w) rc out err =
           completed_report description (build_cmd command compose_command)
             (time_end w - time_start w) rc (Utf8 otext) (if rc = 0 then err else Utf8 etext)"
    using assms(4) e by simp
  note r = run_completed [OF assms(1,2,3), of description, unfolded c completed_report_utf8]
  have 1: "last (fst (run_docker_command w command description timeout compose_command)) =
             build_cmd command compose_command"
    by (simp add: r)
  have 2: "\<exists>ds d1 d2.
      fmt_2f (time_end w - time_start w) =
        (if time_end w < time_start w then [45] else []) @ ds @ [46, d1, d2] \<and>
      ds \<noteq> [] \<and> (\<forall>d \<in> set (ds @ [d1, d2]). 48 \<le> d \<and> d \<le> 57)"
    using fmt_2f_shape [of "time_end w - time_start w"] by simp
  show ?thesis
    using 1 2 round_half_even_near by (simp add: r)
qed

theorem completed_report_layout_witness:
  "snd (run_docker_command
          (docker_world True 0 lint_cmd
             (Exits 2 1 (Utf8 (u ''src/a.cpp:3: error: x'')) (Utf8 (u ''  '' @ [10] @ u ''boom'' @ [10])))
             (5 / 4))
          (u ''lint'') lint_description 300 False) =
     Returned (py_join [10]
       [[0x1F680] @ u '' Running C++ linting checks...'',
        [0x1F4CB] @ u '' Command: docker-compose run --rm lint'',
        [0x23F1, 0xFE0F] @ u ''  Execution time: 1.25s'',
        [],
        [0x274C] @ u '' Failed with exit code 1'',
        [0x1F525] @ u '' Error output:'',
        [0x1F525] @ u '' boom'',
        [0x1F4C4] @ u '' Standard output:'',
        [0x1F534] @ u '' src/a.cpp:3: error: x'']) \<and>
   snd (run_docker_command
          (docker_world True 0 lint_cmd (Exits 2 0 (Utf8 []) (Utf8 (u ''note''))) (1 / 8))
          (u ''lint'') lint_description 300 False) =
     Returned (py_join [10]
       [[0x1F680] @ u '' Running C++ linting checks...'',
        [0x1F4CB] @ u '' Command: docker-compose run --rm lint'',
        [0x23F1, 0xFE0F] @ u ''  Execution time: 0.12s'',
        [],
        [0x2705] @ u '' Success!''])"
proof -
  let ?p = "Exits 2 1 (Utf8 (u ''src/a.cpp:3: error: x'')) (Utf8 (u ''  '' @ [10] @ u ''boom'' @ [10]))"
  let ?q = "Exits 2 0 (Utf8 []) (Utf8 (u ''note''))"
  have v: "snd (validate_docker_environment (docker_world True 0 lint_cmd p el)) = Returned True"
    for p el by (simp add: validate_docker_world)
  have s: "create_subprocess_exec (docker_world True 0 lint_cmd p el) (build_cmd (u ''lint'') False)
             = Inr p" for p el
    by (simp add: lint_cmd_eq spawn_docker_world lint_cmd_not_probe)
  have t: "(2::rat) \<le> of_int 300" by simp
  have fo: "format_command_output (u ''src/a.cpp:3: error: x'') = [0x1F534] @ u '' src/a.cpp:3: error: x''"
    by (simp add: format_command_output_def classify_def py_strip_def py_isspace_def
          classify_line_def any_word_in_def py_lower_def lower_cp_def u_def)
  have fe: "format_error_output (u ''  '' @ [10] @ u ''boom'' @ [10]) = [0x1F525] @ u '' boom''"
    by (simp add: format_error_output_def py_strip_def py_isspace_def u_def)
  have j: "py_join [32] lint_cmd = u ''docker-compose run --rm lint''"
    by (simp add: lint_cmd_def u_def)
  have c: "time_end (docker_world fe prc cmd p el) - time_start (docker_world fe prc cmd p el) = el"
    for fe prc cmd p el by (simp add: docker_world_def)
  have i: "str_int 1 = u ''1''" by (simp add: str_int_def str_nat.simps u_def)
  note a = completed_report_layout
             [OF v [of ?p "5 / 4"] s [of ?p "5 / 4"] t refl disjI2 [OF refl],
              where description = lint_description,
              unfolded lint_cmd_eq j c fmt_ex1 fo fe i]
  note b = completed_report_layout
             [OF v [of ?q "1 / 8"] s [of ?q "1 / 8"] t refl disjI1 [OF refl],
              where description = lint_description,
              unfolded lint_cmd_eq j c fmt_ex3]
  from a b show ?thesis
    by (simp add: lint_description_def u_def)
qed

text \<open>
  Two runs that ended with code 0 within the timeout and do not get the layout above: one
  whose stdout is the byte \<open>0xff\<close>, where \<open>decode\<close> raises and the report is the
  error line alone, and one during which the clock was set back by a second and a half,
  where the duration shown is negative.
\<close>

theorem undecodable_output_or_clock_step_back:
  "snd (lint (docker_world True 0 lint_cmd (Exits 1 0 (Invalid [0xFF] utf8_error) (Utf8 [])) 1)) =
     Returned ([0x274C] @ u '' Error executing command: '' @ str_exn utf8_error) \<and>
   snd (lint (docker_world True 0 lint_cmd (Exits 1 0 (Utf8 []) (Utf8 [])) (- (3 / 2)))) =
     Returned (py_join [10]
       [[0x1F680] @ u '' Running C++ linting checks...'',
        [0x1F4CB] @ u '' Command: docker-compose run --rm lint'',
        [0x23F1, 0xFE0F] @ u ''  Execution time: -1.50s'',
        [],
        [0x2705] @ u '' Success!''])"
proof -
  have v: "snd (validate_docker_environment (docker_world True 0 lint_cmd p el)) = Returned True"
    for p el by (simp add: validate_docker_world)
  have s: "create_subprocess_exec (docker_world True 0 lint_cmd p el) (build_cmd (u ''lint'') False)
             = Inr p" for p el
    by (simp add: lint_cmd_eq spawn_docker_world lint_cmd_not_probe)
  have t: "(1::rat) \<le> of_int 300" by simp
  have c: "time_end (docker_world fe prc cmd p el) - time_start (docker_world fe prc cmd p el) = el"
    for fe prc cmd p el by (simp add: docker_world_def)
  have j: "py_join [32] lint_cmd = u ''docker-compose run --rm lint''"
    by (simp add: lint_cmd_def u_def)
  note a = run_completed
             [OF v [of "Exits 1 0 (Invalid [0xFF] utf8_error) (Utf8 [])" 1]
                 s [of "Exits 1 0 (Invalid [0xFF] utf8_error) (Utf8 [])" 1] t,
              where description = "u ''Running C++ linting checks...''",
              unfolded c lint_cmd_eq]
  note b = run_completed
             [OF v [of "Exits 1 0 (Utf8 []) (Utf8 [])" "- (3 / 2)"]
                 s [of "Exits 1 0 (Utf8 []) (Utf8 [])" "- (3 / 2)"] t,
              where description = "u ''Running C++ linting checks...''",
              unfolded c lint_cmd_eq]
  have 1: "snd (lint (docker_world True 0 lint_cmd (Exits 1 0 (Invalid [0xFF] utf8_error) (Utf8 [])) 1)) =
     Returned ([0x274C] @ u '' Error executing command: '' @ str_exn utf8_error)"
    unfolding lint_def a
    by (simp add: completed_report_def stream_section_def Let_def)
  have 2: "snd (lint (docker_world True 0 lint_cmd (Exits 1 0 (Utf8 []) (Utf8 [])) (- (3 / 2)))) =
     Returned (py_join [10]
       [[0x1F680] @ u '' Running C++ linting checks...'',
        [0x1F4CB] @ u '' Command: docker-compose run --rm lint'',
        [0x23F1, 0xFE0F] @ u ''  Execution time: -1.50s'',
        [],
        [0x2705] @ u '' Success!''])"
    unfolding lint_def b
    by (simp add: completed_report_def stream_section_def report_head_def success_banner_def
          Let_def j fmt_ex2) (simp add: u_def)
  from 1 2 show ?thesis by blast
qed

lemma lint_out_classified:
  "classify (u ''Checking... 0 warnings'' @ [10] @ u ''All checks passed'') =
     [(WARNING, u ''Checking... 0 warnings''), (SUCCESS, u ''All checks passed'')]"
  by (simp add: classify_def py_strip_def py_isspace_def
        classify_line_def any_word_in_def py_lower_def lower_cp_def u_def)

text \<open>
  Claim C3, as the code has it. For the \<open>lint\<close> operation, validation passed, exit code 0
  within the timeout and stdout \<open>Checking... 0 warnings\<close>, newline, \<open>All checks passed\<close>,
  the report is the title, the command, the duration and an empty line, then the success
  banner, the output header and the two output lines in their order: the first tagged
  WARNING (it contains \<open>warning\<close>), the second tagged SUCCESS (it contains \<open>passed\<close>).
  There is no stderr section, whatever stderr holds.
\<close>

theorem lint_example_report:
  assumes "snd (validate_docker_environment w) = Returned True"
    and "create_subprocess_exec w [u ''docker-compose'', u ''run'', u ''--rm'', u ''lint''] =
           Inr (Exits t 0 (Utf8 (u ''Checking... 0 warnings'' @ [10] @ u ''All checks passed'')) err)"
    and "t \<le> 300"
  shows "snd (lint w) =
     Returned (py_join [10]
       [[0x1F680] @ u '' Running C++ linting checks...'',
        [0x1F4CB] @ u '' Command: docker-compose run --rm lint'',
        [0x23F1, 0xFE0F] @ u ''  Execution time: '' @ fmt_2f (time_end w - time_start w) @ u ''s'',
        [],
        [0x2705] @ u '' Success!'',
        [0x1F4C4] @ u '' Output:'',
        [0x1F7E1] @ u '' Checking... 0 warnings'',
        [0x2705] @ u '' All checks passed'']) \<and>
   classify (u ''Checking... 0 warnings'' @ [10] @ u ''All checks passed'') =
     [(WARNING, u ''Checking... 0 warnings''), (SUCCESS, u ''All checks passed'')]"
proof -
  have s: "create_subprocess_exec w (build_cmd (u ''lint'') False) =
             Inr (Exits t 0 (Utf8 (u ''Checking... 0 warnings'' @ [10] @ u ''All checks passed'')) err)"
    using assms(2) by (simp add: build_cmd_def)
  have t: "t \<le> of_int 300" using assms(3) by simp
  have j: "py_join [32] (build_cmd (u ''lint'') False) = u ''docker-compose run --rm lint''"
    by (simp add: build_cmd_def u_def)
  note r = run_completed [OF assms(1) s t,
              where description = "u ''Running C++ linting checks...''", unfolded j]
  have "snd (lint w) =
     Returned (py_join [10]
       [[0x1F680] @ u '' Running C++ linting checks...'',
        [0x1F4CB] @ u '' Command: docker-compose run --rm lint'',
        [0x23F1, 0xFE0F] @ u ''  Execution time: '' @ fmt_2f (time_end w - time_start w) @ u ''s'',
        [],
        [0x2705] @ u '' Success!'',
        [0x1F4C4] @ u '' Output:'',
        [0x1F7E1] @ u '' Checking... 0 warnings'',
        [0x2705] @ u '' All checks passed''])"
    unfolding lint_def r
    by (simp add: completed_report_def stream_section_def report_head_def success_banner_def
          Let_def j)
       (simp add: format_command_output_def classify_def py_strip_def py_isspace_def
          classify_line_def any_word_in_def py_lower_def lower_cp_def u_def)
  with lint_out_classified show ?thesis by blast
qed

theorem lint_example_report_witness:
  "snd (lint (docker_world True 0 lint_cmd (Exits 2 0 (Utf8 lint_stdout) (Utf8 (u ''note''))) (5 / 4))) =
     Returned (py_join [10]
       [[0x1F680] @ u '' Running C++ linting checks...'',
        [0x1F4CB] @ u '' Command: docker-compose run --rm lint'',
        [0x23F1, 0xFE0F] @ u ''  Execution time: 1.25s'',
        [],
        [0x2705] @ u '' Success!'',
        [0x1F4C4] @ u '' Output:'',
        [0x1F7E1] @ u '' Checking... 0 warnings'',
        [0x2705] @ u '' All checks passed''])"
proof -
  let ?w = "docker_world True 0 lint_cmd (Exits 2 0 (Utf8 lint_stdout) (Utf8 (u ''note''))) (5 / 4)"
  have v: "snd (validate_docker_environment ?w) = Returned True"
    by (simp add: validate_docker_world)
  have s: "create_subprocess_exec ?w [u ''docker-compose'', u ''run'', u ''--rm'', u ''lint''] =
           Inr (Exits 2 0 (Utf8 (u ''Checking... 0 warnings'' @ [10] @ u ''All checks passed'')) (Utf8 (u ''note'')))"
    using spawn_docker_world [OF lint_cmd_not_probe] by (simp add: lint_cmd_def lint_stdout_def)
  have c: "time_end ?w - time_start ?w = 5 / 4" by (simp add: docker_world_def)
  from lint_example_report [OF v s, unfolded c fmt_ex1] show ?thesis
    by (simp add: u_def)
qed

text \<open>
  The first output line of the example is tagged WARNING, not PLAIN.
\<close>

theorem lint_first_line_is_warning:
  "map fst (classify (u ''Checking... 0 warnings'' @ [10] @ u ''All checks passed'')) \<noteq>
     [PLAIN, SUCCESS] \<and>
   classify_line (u ''Checking... 0 warnings'') = WARNING"
  by (simp add: classify_def py_strip_def py_isspace_def
        classify_line_def any_word_in_def py_lower_def lower_cp_def u_def)

section \<open>Properties of the workflow status probe\<close>

lemma check_github_auth_cases:
  "check_github_auth w =
     (case create_subprocess_exec w gh_version of
        Inl e \<Rightarrow>
          ([gh_version],
           Returned (False,
             [[0x274C] @ u '' Error checking GitHub auth: '' @ str_exn e,
              [0x1F4A1] @ u '' Run: ./scripts/setup-github-auth.sh'']))
      | Inr Hangs \<Rightarrow> ([gh_version], Pending)
      | Inr (Exits t rc out err) \<Rightarrow>
          if rc \<noteq> 0 then
            ([gh_version],
             Returned (False,
               [[0x274C] @ u '' GitHub CLI not found'',
                [0x1F4A1] @ u '' Install GitHub CLI in container: included in Dockerfile'',
                [0x1F4DA] @ u '' Setup guide: ./scripts/setup-github-auth.sh'']))
          else
            (case create_subprocess_exec w gh_auth_status of
               Inl e \<Rightarrow>
                 ([gh_version, gh_auth_status],
                  Returned (False,
                    [[0x274C] @ u '' Error checking GitHub auth: '' @ str_exn e,
                     [0x1F4A1] @ u '' Run: ./scripts/setup-github-auth.sh'']))
             | Inr Hangs \<Rightarrow> ([gh_version, gh_auth_status], Pending)
             | Inr (Exits t' rc' out' err') \<Rightarrow>
                 ([gh_version, gh_auth_status],
                  Returned
                    (if rc' = 0 then (True, [[0x2705] @ u '' GitHub CLI authenticated''])
                     else (False, not_authenticated_messages w)))))"
  by (simp add: check_github_auth_def gh_auth_body_def split: sum.splits proc.splits)

lemma gh_auth_log: "set (fst (check_github_auth w)) \<subseteq> {gh_version, gh_auth_status}"
  by (simp add: check_github_auth_cases split: sum.splits proc.splits)

lemma gh_auth_messages:
  "snd (check_github_auth w) = Returned (b, messages) \<Longrightarrow> messages \<noteq> []"
  by (auto simp: check_github_auth_cases not_authenticated_messages_def
           split: sum.splits proc.splits if_splits)

lemma run_list_cmd_not_auth:
  "run_list_cmd limit workflow_name \<noteq> gh_version"
  "run_list_cmd limit workflow_name \<noteq> gh_auth_status"
  by (simp_all add: run_list_cmd_def gh_version_def gh_auth_status_def)

lemma probe_not_authenticated:
  assumes "snd (check_github_auth w) = Returned (False, messages)"
  shows "check_workflow_runs w limit workflow_name =
           (fst (check_github_auth w), Returned (py_join [10] (status_header @ messages)))"
proof -
  obtain lg where a: "check_github_auth w = (lg, Returned (False, messages))"
    using assms by (cases "check_github_auth w") auto
  show ?thesis
    by (simp add: check_workflow_runs_def workflow_runs_body_def a)
qed

lemma probe_authenticated:
  assumes "snd (check_github_auth w) = Returned (True, messages)"
  shows "check_workflow_runs w limit workflow_name =
           (fst (check_github_auth w) @ [run_list_cmd limit workflow_name],
            case query_runs w (run_list_cmd limit workflow_name) of
              Raised e \<Rightarrow>
                Returned ([0x274C] @ u '' Error checking workflow runs: '' @ str_exn e)
            | r \<Rightarrow> r)"
proof -
  obtain lg where a: "check_github_auth w = (lg, Returned (True, messages))"
    using assms by (cases "check_github_auth w") auto
  show ?thesis
    by (simp add: check_workflow_runs_def workflow_runs_body_def a Let_def
             split: result.splits)
qed

lemma env_set_iff: "env_set w name \<longleftrightarrow> (\<exists>v. getenv w name = Some v \<and> v \<noteq> [])"
  by (simp add: env_set_def split: option.splits)

lemma probe_not_authenticated_full:
  assumes "check_github_auth w = (lg, Returned (False, messages))"
  shows "check_workflow_runs w limit workflow_name =
           (lg, Returned (py_join [10] (status_header @ messages)))"
  using probe_not_authenticated [of w messages limit workflow_name] assms by simp

lemma probe_gh_not_launched:
  assumes "create_subprocess_exec w [u ''gh'', u ''--version''] = Inl e"
  shows "check_workflow_runs w limit workflow_name =
     ([[u ''gh'', u ''--version'']],
      Returned (py_join [10]
        [[0x1F50D] @ u '' GitHub Actions Workflow Status'', replicate 40 61, [],
         [0x274C] @ u '' Error checking GitHub auth: '' @ str_exn e,
         [0x1F4A1] @ u '' Run: ./scripts/setup-github-auth.sh'']))"
proof -
  have "check_github_auth w =
          ([gh_version],
           Returned (False,
             [[0x274C] @ u '' Error checking GitHub auth: '' @ str_exn e,
              [0x1F4A1] @ u '' Run: ./scripts/setup-github-auth.sh'']))"
    using assms by (simp add: check_github_auth_cases gh_version_def)
  from probe_not_authenticated_full [OF this] show ?thesis
    by (simp add: status_header_def gh_version_def)
qed

lemma probe_gh_version_fails:
  assumes "create_subprocess_exec w [u ''gh'', u ''--version''] = Inr (Exits t rc out err)"
    and "rc \<noteq> 0"
  shows "check_workflow_runs w limit workflow_name =
     ([[u ''gh'', u ''--version'']],
      Returned (py_join [10]
        [[0x1F50D] @ u '' GitHub Actions Workflow Status'', replicate 40 61, [],
         [0x274C] @ u '' GitHub CLI not found'',
         [0x1F4A1] @ u '' Install GitHub CLI in container: included in Dockerfile'',
         [0x1F4DA] @ u '' Setup guide: ./scripts/setup-github-auth.sh'']))"
proof -
  have "check_github_auth w =
          ([gh_version],
           Returned (False,
             [[0x274C] @ u '' GitHub CLI not found'',
              [0x1F4A1] @ u '' Install GitHub CLI in container: included in Dockerfile'',
              [0x1F4DA] @ u '' Setup guide: ./scripts/setup-github-auth.sh'']))"
    using assms by (simp add: check_github_auth_cases gh_version_def)
  from probe_not_authenticated_full [OF this] show ?thesis
    by (simp add: status_header_def gh_version_def)
qed

lemma probe_auth_not_launched:
  assumes "create_subprocess_exec w [u ''gh'', u ''--version''] = Inr (Exits t 0 out err)"
    and "create_subprocess_exec w [u ''gh'', u ''auth'', u ''status''] = Inl e"
  shows "check_workflow_runs w limit workflow_name =
     ([[u ''gh'', u ''--version''], [u ''gh'', u ''auth'', u ''status'']],
      Returned (py_join [10]
        [[0x1F50D] @ u '' GitHub Actions Workflow Status'', replicate 40 61, [],
         [0x274C] @ u '' Error checking GitHub auth: '' @ str_exn e,
         [0x1F4A1] @ u '' Run: ./scripts/setup-github-auth.sh'']))"
proof -
  have "check_github_auth w =
          ([gh_version, gh_auth_status],
           Returned (False,
             [[0x274C] @ u '' Error checking GitHub auth: '' @ str_exn e,
              [0x1F4A1] @ u '' Run: ./scripts/setup-github-auth.sh'']))"
    using assms by (simp add: check_github_auth_cases gh_version_def gh_auth_status_def)
  from probe_not_authenticated_full [OF this] show ?thesis
    by (simp add: status_header_def gh_version_def gh_auth_status_def)
qed

lemma probe_auth_status_fails:
  assumes "create_subprocess_exec w [u ''gh'', u ''--version''] = Inr (Exits t 0 out err)"
    and "create_subprocess_exec w [u ''gh'', u ''auth'', u ''status''] =
           Inr (Exits t' rc' out' err')"
    and "rc' \<noteq> 0"
  shows "check_workflow_runs w limit workflow_name =
     ([[u ''gh'', u ''--version''], [u ''gh'', u ''auth'', u ''status'']],
      Returned (py_join [10]
        ([[0x1F50D] @ u '' GitHub Actions Workflow Status'', replicate 40 61, [],
          [0x274C] @ u '' GitHub CLI not authenticated'',
          [0x1F527] @ u '' Container setup:''] @
         (if (\<exists>v. getenv w (u ''GITHUB_TOKEN'') = Some v \<and> v \<noteq> []) \<or>
             (\<exists>v. getenv w (u ''GH_TOKEN'') = Some v \<and> v \<noteq> [])
          then [u ''  1. GITHUB_TOKEN found in environment'',
                u ''  2. Run: echo $GITHUB_TOKEN | gh auth login --with-token'']
          else [u ''  1. Set GITHUB_TOKEN environment variable'',
                u ''  2. Run: docker-compose up -d mcp-server'',
                u ''  3. Or run: ./scripts/setup-github-auth.sh'']) @
         [[],
          [0x1F511] @ u '' Token requirements for private repos:'',
          u ''  - repo (full control of private repositories)'',
          u ''  - workflow (update GitHub Action workflows)'',
          u ''  - read:org (read org and team membership)''])))"
proof -
  have "check_github_auth w =
          ([gh_version, gh_auth_status], Returned (False, not_authenticated_messages w))"
    using assms by (simp add: check_github_auth_cases gh_version_def gh_auth_status_def)
  from probe_not_authenticated_full [OF this] show ?thesis
    by (simp add: status_header_def gh_version_def gh_auth_status_def
          not_authenticated_messages_def env_set_iff)
qed

lemma probe_no_runs:
  assumes "create_subprocess_exec w [u ''gh'', u ''--version''] = Inr (Exits t 0 out err)"
    and "create_subprocess_exec w [u ''gh'', u ''auth'', u ''status''] =
           Inr (Exits t' 0 out' err')"
    and "create_subprocess_exec w (run_list_cmd limit workflow_name) =
           Inr (Exits t'' 0 (Utf8 body) err'')"
    and "json_loads w body = Inr []"
  shows "check_workflow_runs w limit workflow_name =
     ([[u ''gh'', u ''--version''], [u ''gh'', u ''auth'', u ''status''],
       run_list_cmd limit workflow_name],
      Returned (py_join [10]
        [[0x1F50D] @ u '' GitHub Actions Workflow Status'', replicate 40 61, [],
         [0x2139, 0xFE0F] @ u ''  No workflow runs found'']))"
proof -
  have a: "check_github_auth w =
          ([gh_version, gh_auth_status],
           Returned (True, [[0x2705] @ u '' GitHub CLI authenticated'']))"
    using assms(1,2) by (simp add: check_github_auth_cases gh_version_def gh_auth_status_def)
  then have a': "snd (check_github_auth w) =
                   Returned (True, [[0x2705] @ u '' GitHub CLI authenticated''])" by simp
  have "query_runs w (run_list_cmd limit workflow_name) =
          Returned (py_join [10] (status_header @ [no_runs_line]))"
    by (simp add: query_runs_def assms(3,4))
  then show ?thesis
    by (simp add: probe_authenticated [OF a'] a status_header_def no_runs_line_def
          gh_version_def gh_auth_status_def)
qed

lemma run_list_cmd_limit_10:
  "run_list_cmd 10 None =
     [u ''gh'', u ''run'', u ''list'', u ''--limit'', u ''10'', u ''--json'',
      u ''status,conclusion,name,createdAt,headBranch,workflowName,url,databaseId'']"
  by (simp add: run_list_cmd_def str_int_def str_nat.simps u_def)

text \<open>
  Claim C8. The probe first runs the authentication check. When \<open>gh\<close> cannot be launched
  the report is the header and the two lines of \<open>Error checking GitHub auth\<close> with the
  text of the exception; when \<open>gh --version\<close> ends with a code other than 0 it is the header
  and the three \<open>GitHub CLI not found\<close> lines with the install and setup guidance; when
  \<open>gh auth status\<close> ends with a code other than 0 it is the header and the
  \<open>GitHub CLI not authenticated\<close> lines, with the login instructions if \<open>GITHUB_TOKEN\<close> or
  \<open>GH_TOKEN\<close> is set and the instructions to set the token if not, followed by the token
  requirements. In each of these cases the only children launched are those of the check:
  the run-list query is never issued. When the check passes and the query ends with code
  0 and a text that \<open>json.loads\<close> reads as the empty list, the report is the header
  followed by the line \<open>No workflow runs found\<close>.
\<close>

theorem status_probe_terminal_branches:
  "(create_subprocess_exec w [u ''gh'', u ''--version''] = Inl e \<longrightarrow>
      check_workflow_runs w limit workflow_name =
        ([[u ''gh'', u ''--version'']],
         Returned (py_join [10]
          [[0x1F50D] @ u '' GitHub Actions Workflow Status'', replicate 40 61, [],
           [0x274C] @ u '' Error checking GitHub auth: '' @ str_exn e,
           [0x1F4A1] @ u '' Run: ./scripts/setup-github-auth.sh'']))) \<and>
   (create_subprocess_exec w [u ''gh'', u ''--version''] = Inr (Exits t1 rc out1 err1) \<and> rc \<noteq> 0 \<longrightarrow>
      check_workflow_runs w limit workflow_name =
        ([[u ''gh'', u ''--version'']],
         Returned (py_join [10]
          [[0x1F50D] @ u '' GitHub Actions Workflow Status'', replicate 40 61, [],
           [0x274C] @ u '' GitHub CLI not found'',
           [0x1F4A1] @ u '' Install GitHub CLI in container: included in Dockerfile'',
           [0x1F4DA] @ u '' Setup guide: ./scripts/setup-github-auth.sh'']))) \<and>
   (create_subprocess_exec w [u ''gh'', u ''--version''] = Inr (Exits t1 0 out1 err1) \<and>
    create_subprocess_exec w [u ''gh'', u ''auth'', u ''status''] = Inl e \<longrightarrow>
      check_workflow_runs w limit workflow_name =
        ([[u ''gh'', u ''--version''], [u ''gh'', u ''auth'', u ''status'']],
         Returned (py_join [10]
          [[0x1F50D] @ u '' GitHub Actions Workflow Status'', replicate 40 61, [],
           [0x274C] @ u '' Error checking GitHub auth: '' @ str_exn e,
           [0x1F4A1] @ u '' Run: ./scripts/setup-github-auth.sh'']))) \<and>
   (create_subprocess_exec w [u ''gh'', u ''--version''] = Inr (Exits t1 0 out1 err1) \<and>
    create_subprocess_exec w [u ''gh'', u ''auth'', u ''status''] = Inr (Exits t2 rc out2 err2) \<and>
    rc \<noteq> 0 \<longrightarrow>
      check_workflow_runs w limit workflow_name =
        ([[u ''gh'', u ''--version''], [u ''gh'', u ''auth'', u ''status'']],
         Returned (py_join [10]
          ([[0x1F50D] @ u '' GitHub Actions Workflow Status'', replicate 40 61, [],
            [0x274C] @ u '' GitHub CLI not authenticated'',
             [0x1F527] @ u '' Container setup:''] @
           (if (\<exists>v. getenv w (u ''GITHUB_TOKEN'') = Some v \<and> v \<noteq> []) \<or>
               (\<exists>v. getenv w (u ''GH_TOKEN'') = Some v \<and> v \<noteq> [])
            then [u ''  1. GITHUB_TOKEN found in environment'',
                   u ''  2. Run: echo $GITHUB_TOKEN | gh auth login --with-token'']
            else [u ''  1. Set GITHUB_TOKEN environment variable'',
                   u ''  2. Run: docker-compose up -d mcp-server'',
                   u ''  3. Or run: ./scripts/setup-github-auth.sh'']) @
           [[],
             [0x1F511] @ u '' Token requirements for private repos:'',
             u ''  - repo (full control of private repositories)'',
             u ''  - workflow (update GitHub Action workflows)'',
             u ''  - read:org (read org and team membership)''])))) \<and>
   (create_subprocess_exec w [u ''gh'', u ''--version''] = Inr (Exits t1 0 out1 err1) \<and>
    create_subprocess_exec w [u ''gh'', u ''auth'', u ''status''] = Inr (Exits t2 0 out2 err2) \<and>
    create_subprocess_exec w
      ([u ''gh'', u ''run'', u ''list'', u ''--limit'', str_int limit, u ''--json'',
         u ''status,conclusion,name,createdAt,headBranch,workflowName,url,databaseId''] @
        (case workflow_name of
           None \<Rightarrow> []
         | Some n \<Rightarrow> if n \<noteq> [] then [u ''--workflow'', n] else [])) = Inr (Exits t 0 (Utf8 body) err) \<and>
    json_loads w body = Inr [] \<longrightarrow>
      check_workflow_runs w limit workflow_name =
        ([[u ''gh'', u ''--version''], [u ''gh'', u ''auth'', u ''status''],
          ([u ''gh'', u ''run'', u ''list'', u ''--limit'', str_int limit, u ''--json'',
         u ''status,conclusion,name,createdAt,headBranch,workflowName,url,databaseId''] @
        (case workflow_name of
           None \<Rightarrow> []
         | Some n \<Rightarrow> if n \<noteq> [] then [u ''--workflow'', n] else []))],
         Returned (py_join [10]
          [[0x1F50D] @ u '' GitHub Actions Workflow Status'', replicate 40 61, [],
           [0x2139, 0xFE0F] @ u ''  No workflow runs found'']))) \<and>
   ((\<exists>e. create_subprocess_exec w gh_version = Inl e) \<or>
    (\<exists>t rc out err. create_subprocess_exec w gh_version = Inr (Exits t rc out err) \<and>
       (rc \<noteq> 0 \<or> (\<exists>e. create_subprocess_exec w gh_auth_status = Inl e) \<or>
        (\<exists>t' rc' out' err'.
           create_subprocess_exec w gh_auth_status = Inr (Exits t' rc' out' err') \<and> rc' \<noteq> 0)))
    \<longrightarrow> (\<exists>messages. snd (check_github_auth w) = Returned (False, messages))) \<and>
   (snd (check_github_auth w) = Returned (False, messages) \<longrightarrow>
      snd (check_workflow_runs w limit workflow_name) =
        Returned (py_join [10]
          ([[0x1F50D] @ u '' GitHub Actions Workflow Status'', replicate 40 61, []] @ messages)) \<and>
      messages \<noteq> [] \<and>
      fst (check_workflow_runs w limit workflow_name) = fst (check_github_auth w) \<and>
      set (fst (check_workflow_runs w limit workflow_name)) \<subseteq> {gh_version, gh_auth_status} \<and>
      run_list_cmd limit workflow_name \<notin> set (fst (check_workflow_runs w limit workflow_name))) \<and>
   (snd (check_github_auth w) = Returned (True, messages) \<and>
    create_subprocess_exec w (run_list_cmd limit workflow_name) =
      Inr (Exits t 0 (Utf8 body) err) \<and>
    json_loads w body = Inr [] \<longrightarrow>
      snd (check_workflow_runs w limit workflow_name) =
        Returned (py_join [10]
          [[0x1F50D] @ u '' GitHub Actions Workflow Status'', replicate 40 61, [],
           [0x2139, 0xFE0F] @ u ''  No workflow runs found'']))"
proof -
  have A: "check_workflow_runs w limit workflow_name =
        ([[u ''gh'', u ''--version'']],
         Returned (py_join [10]
          [[0x1F50D] @ u '' GitHub Actions Workflow Status'', replicate 40 61, [],
           [0x274C] @ u '' Error checking GitHub auth: '' @ str_exn e,
           [0x1F4A1] @ u '' Run: ./scripts/setup-github-auth.sh'']))"
    if "create_subprocess_exec w [u ''gh'', u ''--version''] = Inl e"
    using that by (rule probe_gh_not_launched)
  have B: "check_workflow_runs w limit workflow_name =
        ([[u ''gh'', u ''--version'']],
         Returned (py_join [10]
          [[0x1F50D] @ u '' GitHub Actions Workflow Status'', replicate 40 61, [],
           [0x274C] @ u '' GitHub CLI not found'',
           [0x1F4A1] @ u '' Install GitHub CLI in container: included in Dockerfile'',
           [0x1F4DA] @ u '' Setup guide: ./scripts/setup-github-auth.sh'']))"
    if "create_subprocess_exec w [u ''gh'', u ''--version''] = Inr (Exits t1 rc out1 err1) \<and> rc \<noteq> 0"
    using that probe_gh_version_fails by blast
  have C: "check_workflow_runs w limit workflow_name =
        ([[u ''gh'', u ''--version''], [u ''gh'', u ''auth'', u ''status'']],
         Returned (py_join [10]
          [[0x1F50D] @ u '' GitHub Actions Workflow Status'', replicate 40 61, [],
           [0x274C] @ u '' Error checking GitHub auth: '' @ str_exn e,
           [0x1F4A1] @ u '' Run: ./scripts/setup-github-auth.sh'']))"
    if "create_subprocess_exec w [u ''gh'', u ''--version''] = Inr (Exits t1 0 out1 err1) \<and>
        create_subprocess_exec w [u ''gh'', u ''auth'', u ''status''] = Inl e"
    using that probe_auth_not_launched by blast
  have D: "check_workflow_runs w limit workflow_name =
        ([[u ''gh'', u ''--version''], [u ''gh'', u ''auth'', u ''status'']],
         Returned (py_join [10]
          ([[0x1F50D] @ u '' GitHub Actions Workflow Status'', replicate 40 61, [],
            [0x274C] @ u '' GitHub CLI not authenticated'',
             [0x1F527] @ u '' Container setup:''] @
           (if (\<exists>v. getenv w (u ''GITHUB_TOKEN'') = Some v \<and> v \<noteq> []) \<or>
               (\<exists>v. getenv w (u ''GH_TOKEN'') = Some v \<and> v \<noteq> [])
            then [u ''  1. GITHUB_TOKEN found in environment'',
                   u ''  2. Run: echo $GITHUB_TOKEN | gh auth login --with-token'']
            else [u ''  1. Set GITHUB_TOKEN environment variable'',
                   u ''  2. Run: docker-compose up -d mcp-server'',
                   u ''  3. Or run: ./scripts/setup-github-auth.sh'']) @
           [[],
             [0x1F511] @ u '' Token requirements for private repos:'',
             u ''  - repo (full control of private repositories)'',
             u ''  - workflow (update GitHub Action workflows)'',
             u ''  - read:org (read org and team membership)''])))"
    if "create_subprocess_exec w [u ''gh'', u ''--version''] = Inr (Exits t1 0 out1 err1) \<and>
        create_subprocess_exec w [u ''gh'', u ''auth'', u ''status''] = Inr (Exits t2 rc out2 err2) \<and>
        rc \<noteq> 0"
    using that probe_auth_status_fails by blast
  have G: "check_workflow_runs w limit workflow_name =
        ([[u ''gh'', u ''--version''], [u ''gh'', u ''auth'', u ''status''],
          ([u ''gh'', u ''run'', u ''list'', u ''--limit'', str_int limit, u ''--json'',
         u ''status,conclusion,name,createdAt,headBranch,workflowName,url,databaseId''] @
        (case workflow_name of
           None \<Rightarrow> []
         | Some n \<Rightarrow> if n \<noteq> [] then [u ''--workflow'', n] else []))],
         Returned (py_join [10]
          [[0x1F50D] @ u '' GitHub Actions Workflow Status'', replicate 40 61, [],
           [0x2139, 0xFE0F] @ u ''  No workflow runs found'']))"
    if "create_subprocess_exec w [u ''gh'', u ''--version''] = Inr (Exits t1 0 out1 err1) \<and>
        create_subprocess_exec w [u ''gh'', u ''auth'', u ''status''] = Inr (Exits t2 0 out2 err2) \<and>
        create_subprocess_exec w
          ([u ''gh'', u ''run'', u ''list'', u ''--limit'', str_int limit, u ''--json'',
         u ''status,conclusion,name,createdAt,headBranch,workflowName,url,databaseId''] @
        (case workflow_name of
           None \<Rightarrow> []
         | Some n \<Rightarrow> if n \<noteq> [] then [u ''--workflow'', n] else [])) = Inr (Exits t 0 (Utf8 body) err) \<and>
        json_loads w body = Inr []"
    using that probe_no_runs [of w t1 out1 err1 t2 out2 err2 limit workflow_name t body err]
    unfolding run_list_cmd_def by blast

  have 1: "\<exists>messages. snd (check_github_auth w) = Returned (False, messages)"
    if "(\<exists>e. create_subprocess_exec w gh_version = Inl e) \<or>
        (\<exists>t rc out err. create_subprocess_exec w gh_version = Inr (Exits t rc out err) \<and>
           (rc \<noteq> 0 \<or> (\<exists>e. create_subprocess_exec w gh_auth_status = Inl e) \<or>
            (\<exists>t' rc' out' err'.
               create_subprocess_exec w gh_auth_status = Inr (Exits t' rc' out' err') \<and>
               rc' \<noteq> 0)))"
    using that by (auto simp: check_github_auth_cases)
  have 2: "snd (check_workflow_runs w limit workflow_name) =
        Returned (py_join [10]
          ([[0x1F50D] @ u '' GitHub Actions Workflow Status'', replicate 40 61, []] @ messages)) \<and>
      messages \<noteq> [] \<and>
      fst (check_workflow_runs w limit workflow_name) = fst (check_github_auth w) \<and>
      set (fst (check_workflow_runs w limit workflow_name)) \<subseteq> {gh_version, gh_auth_status} \<and>
      run_list_cmd limit workflow_name \<notin> set (fst (check_workflow_runs w limit workflow_name))"
    if a: "snd (check_github_auth w) = Returned (False, messages)"
  proof -
    note p = probe_not_authenticated [OF a, of limit workflow_name]
    have l: "set (fst (check_github_auth w)) \<subseteq> {gh_version, gh_auth_status}"
      by (rule gh_auth_log)
    then have "run_list_cmd limit workflow_name \<notin> set (fst (check_github_auth w))"
      using run_list_cmd_not_auth [of limit workflow_name] by auto
    with l gh_auth_messages [OF a] show ?thesis
      by (simp add: p status_header_def)
  qed
  have 3: "snd (check_workflow_runs w limit workflow_name) =
        Returned (py_join [10]
          [[0x1F50D] @ u '' GitHub Actions Workflow Status'', replicate 40 61, [],
           [0x2139, 0xFE0F] @ u ''  No workflow runs found''])"
    if a: "snd (check_github_auth w) = Returned (True, messages)"
      and s: "create_subprocess_exec w (run_list_cmd limit workflow_name) =
                Inr (Exits t 0 (Utf8 body) err)"
      and j: "json_loads w body = Inr []"
  proof -
    have "query_runs w (run_list_cmd limit workflow_name) =
            Returned (py_join [10] (status_header @ [no_runs_line]))"
      by (simp add: query_runs_def s j)
    then show ?thesis
      by (simp add: probe_authenticated [OF a] status_header_def no_runs_line_def)
  qed
  from A B C D G 1 2 3 show ?thesis by blast
qed

theorem status_probe_terminal_branches_witness:
  "check_workflow_runs
     (gh_world (Inl gh_missing) (Inl gh_missing) (run_list_cmd 10 None) (Inl gh_missing)
        loads_empty_array) 10 None =
     ([[u ''gh'', u ''--version'']],
      Returned (py_join [10]
        [[0x1F50D] @ u '' GitHub Actions Workflow Status'', replicate 40 61, [],
         [0x274C] @ u '' Error checking GitHub auth: [Errno 2] No such file or directory: '' @
           [39] @ u ''gh'' @ [39],
         [0x1F4A1] @ u '' Run: ./scripts/setup-github-auth.sh''])) \<and>
   check_workflow_runs
     (gh_world (Inr (Exits 0 1 (Utf8 []) (Utf8 []))) (Inr exits_ok) (run_list_cmd 10 None)
        (Inr exits_ok) loads_empty_array) 10 None =
     ([[u ''gh'', u ''--version'']],
      Returned (py_join [10]
        [[0x1F50D] @ u '' GitHub Actions Workflow Status'', replicate 40 61, [],
         [0x274C] @ u '' GitHub CLI not found'',
         [0x1F4A1] @ u '' Install GitHub CLI in container: included in Dockerfile'',
         [0x1F4DA] @ u '' Setup guide: ./scripts/setup-github-auth.sh''])) \<and>
   check_workflow_runs
     (gh_world (Inr exits_ok) (Inl gh_missing) (run_list_cmd 10 None)
        (Inr exits_ok) loads_empty_array) 10 None =
     ([[u ''gh'', u ''--version''], [u ''gh'', u ''auth'', u ''status'']],
      Returned (py_join [10]
        [[0x1F50D] @ u '' GitHub Actions Workflow Status'', replicate 40 61, [],
         [0x274C] @ u '' Error checking GitHub auth: [Errno 2] No such file or directory: '' @
           [39] @ u ''gh'' @ [39],
         [0x1F4A1] @ u '' Run: ./scripts/setup-github-auth.sh''])) \<and>
   check_workflow_runs
     (gh_world (Inr exits_ok) (Inr (Exits 0 1 (Utf8 []) (Utf8 []))) (run_list_cmd 10 None)
        (Inr exits_ok) loads_empty_array) 10 None =
     ([[u ''gh'', u ''--version''], [u ''gh'', u ''auth'', u ''status'']],
      Returned (py_join [10]
        [[0x1F50D] @ u '' GitHub Actions Workflow Status'', replicate 40 61, [],
         [0x274C] @ u '' GitHub CLI not authenticated'',
         [0x1F527] @ u '' Container setup:'',
         u ''  1. Set GITHUB_TOKEN environment variable'',
         u ''  2. Run: docker-compose up -d mcp-server'',
         u ''  3. Or run: ./scripts/setup-github-auth.sh'',
         [],
         [0x1F511] @ u '' Token requirements for private repos:'',
         u ''  - repo (full control of private repositories)'',
         u ''  - workflow (update GitHub Action workflows)'',
         u ''  - read:org (read org and team membership)''])) \<and>
   check_workflow_runs
     ((gh_world (Inr exits_ok) (Inr (Exits 0 1 (Utf8 []) (Utf8 []))) (run_list_cmd 10 None)
         (Inr exits_ok) loads_empty_array)
        \<lparr>getenv := \<lambda>name. if name = u ''GH_TOKEN'' then Some (u ''ghp_x'') else None\<rparr>)
     10 None =
     ([[u ''gh'', u ''--version''], [u ''gh'', u ''auth'', u ''status'']],
      Returned (py_join [10]
        [[0x1F50D] @ u '' GitHub Actions Workflow Status'', replicate 40 61, [],
         [0x274C] @ u '' GitHub CLI not authenticated'',
         [0x1F527] @ u '' Container setup:'',
         u ''  1. GITHUB_TOKEN found in environment'',
         u ''  2. Run: echo $GITHUB_TOKEN | gh auth login --with-token'',
         [],
         [0x1F511] @ u '' Token requirements for private repos:'',
         u ''  - repo (full control of private repositories)'',
         u ''  - workflow (update GitHub Action workflows)'',
         u ''  - read:org (read org and team membership)''])) \<and>
   check_workflow_runs
     (gh_world (Inr exits_ok) (Inr exits_ok) (run_list_cmd 10 None)
        (Inr (Exits 1 0 (Utf8 (u ''[]'')) (Utf8 []))) loads_empty_array) 10 None =
     ([[u ''gh'', u ''--version''], [u ''gh'', u ''auth'', u ''status''],
       [u ''gh'', u ''run'', u ''list'', u ''--limit'', u ''10'', u ''--json'',
        u ''status,conclusion,name,createdAt,headBranch,workflowName,url,databaseId'']],
      Returned (py_join [10]
        [[0x1F50D] @ u '' GitHub Actions Workflow Status'', replicate 40 61, [],
         [0x2139, 0xFE0F] @ u ''  No workflow runs found''])) \<and>
   (\<exists>messages.
      snd (check_github_auth
        (gh_world (Inl gh_missing) (Inl gh_missing) (run_list_cmd 10 None) (Inl gh_missing)
           loads_empty_array)) = Returned (False, messages)) \<and>
   run_list_cmd 10 None \<notin>
     set (fst (check_workflow_runs
       (gh_world (Inl gh_missing) (Inl gh_missing) (run_list_cmd 10 None) (Inl gh_missing)
          loads_empty_array) 10 None)) \<and>
   snd (check_workflow_runs
     (gh_world (Inr exits_ok) (Inr exits_ok) (run_list_cmd 10 None)
        (Inr (Exits 1 0 (Utf8 (u ''[]'')) (Utf8 []))) loads_empty_array) 10 None) =
     Returned (py_join [10]
       [[0x1F50D] @ u '' GitHub Actions Workflow Status'', replicate 40 61, [],
        [0x2139, 0xFE0F] @ u ''  No workflow runs found''])"
proof -
  let ?fail = "Exits 0 1 (Utf8 []) (Utf8 [])"
  let ?a = "gh_world (Inl gh_missing) (Inl gh_missing) (run_list_cmd 10 None) (Inl gh_missing)
              loads_empty_array"
  let ?b = "gh_world (Inr ?fail) (Inr exits_ok) (run_list_cmd 10 None) (Inr exits_ok)
              loads_empty_array"
  let ?c = "gh_world (Inr exits_ok) (Inl gh_missing) (run_list_cmd 10 None) (Inr exits_ok)
              loads_empty_array"
  let ?d = "gh_world (Inr exits_ok) (Inr ?fail) (run_list_cmd 10 None) (Inr exits_ok)
              loads_empty_array"
  let ?e = "?d\<lparr>getenv := \<lambda>name. if name = u ''GH_TOKEN'' then Some (u ''ghp_x'') else None\<rparr>"
  let ?g = "gh_world (Inr exits_ok) (Inr exits_ok) (run_list_cmd 10 None)
              (Inr (Exits 1 0 (Utf8 (u ''[]'')) (Utf8 []))) loads_empty_array"
  have ne: "[u ''gh'', u ''auth'', u ''status''] \<noteq> [u ''gh'', u ''--version'']" by simp
  have v: "create_subprocess_exec (gh_world x y c z l) [u ''gh'', u ''--version''] = x"
    for x y c z l by (simp add: gh_world_def gh_version_def)
  have s: "create_subprocess_exec (gh_world x y c z l) [u ''gh'', u ''auth'', u ''status''] = y"
    for x y c z l by (simp add: gh_world_def gh_version_def gh_auth_status_def)
  have q: "create_subprocess_exec (gh_world x y (run_list_cmd 10 None) z l)
             [u ''gh'', u ''run'', u ''list'', u ''--limit'', u ''10'', u ''--json'',
              u ''status,conclusion,name,createdAt,headBranch,workflowName,url,databaseId''] = z"
    for x y z l
    unfolding run_list_cmd_limit_10 by (simp add: gh_world_def gh_version_def gh_auth_status_def)
  have i: "str_int 10 = u ''10''" by (simp add: str_int_def str_nat.simps u_def)
  have ev: "getenv (gh_world x y c z l) name = None" for x y c z l name
    by (simp add: gh_world_def)
  note T = status_probe_terminal_branches
  have 1: "check_workflow_runs ?a 10 None =
     ([[u ''gh'', u ''--version'']],
      Returned (py_join [10]
        [[0x1F50D] @ u '' GitHub Actions Workflow Status'', replicate 40 61, [],
         [0x274C] @ u '' Error checking GitHub auth: '' @ str_exn gh_missing,
         [0x1F4A1] @ u '' Run: ./scripts/setup-github-auth.sh'']))"
    using T [where w = ?a and e = gh_missing and limit = 10 and workflow_name = None,
             THEN conjunct1] v by blast
  have 2: "check_workflow_runs ?b 10 None =
     ([[u ''gh'', u ''--version'']],
      Returned (py_join [10]
        [[0x1F50D] @ u '' GitHub Actions Workflow Status'', replicate 40 61, [],
         [0x274C] @ u '' GitHub CLI not found'',
         [0x1F4A1] @ u '' Install GitHub CLI in container: included in Dockerfile'',
         [0x1F4DA] @ u '' Setup guide: ./scripts/setup-github-auth.sh'']))"
    using T [where w = ?b and ?t1.0 = 0 and rc = 1 and ?out1.0 = "Utf8 []"
               and ?err1.0 = "Utf8 []" and limit = 10 and workflow_name = None,
             THEN conjunct2, THEN conjunct1] v by simp
  have 3: "check_workflow_runs ?c 10 None =
     ([[u ''gh'', u ''--version''], [u ''gh'', u ''auth'', u ''status'']],
      Returned (py_join [10]
        [[0x1F50D] @ u '' GitHub Actions Workflow Status'', replicate 40 61, [],
         [0x274C] @ u '' Error checking GitHub auth: '' @ str_exn gh_missing,
         [0x1F4A1] @ u '' Run: ./scripts/setup-github-auth.sh'']))"
    using T [where w = ?c and ?t1.0 = 0 and ?out1.0 = "Utf8 []" and ?err1.0 = "Utf8 []"
               and e = gh_missing and limit = 10 and workflow_name = None,
             THEN conjunct2, THEN conjunct2, THEN conjunct1] v s
    by (simp add: exits_ok_def)
  have 4: "check_workflow_runs ?d 10 None =
     ([[u ''gh'', u ''--version''], [u ''gh'', u ''auth'', u ''status'']],
      Returned (py_join [10]
        ([[0x1F50D] @ u '' GitHub Actions Workflow Status'', replicate 40 61, [],
          [0x274C] @ u '' GitHub CLI not authenticated'',
          [0x1F527] @ u '' Container setup:''] @
         [u ''  1. Set GITHUB_TOKEN environment variable'',
          u ''  2. Run: docker-compose up -d mcp-server'',
          u ''  3. Or run: ./scripts/setup-github-auth.sh''] @
         [[],
          [0x1F511] @ u '' Token requirements for private repos:'',
          u ''  - repo (full control of private repositories)'',
          u ''  - workflow (update GitHub Action workflows)'',
          u ''  - read:org (read org and team membership)''])))"
    using T [where w = ?d and ?t1.0 = 0 and ?out1.0 = "Utf8 []" and ?err1.0 = "Utf8 []"
               and ?t2.0 = 0 and rc = 1 and ?out2.0 = "Utf8 []" and ?err2.0 = "Utf8 []"
               and limit = 10 and workflow_name = None,
             THEN conjunct2, THEN conjunct2, THEN conjunct2, THEN conjunct1] v s
    by (simp add: exits_ok_def ev)
  have ve: "create_subprocess_exec ?e [u ''gh'', u ''--version''] = Inr exits_ok"
    and se: "create_subprocess_exec ?e [u ''gh'', u ''auth'', u ''status''] = Inr ?fail"
    by (simp_all add: v s)
  have ee: "(\<exists>v. getenv ?e (u ''GITHUB_TOKEN'') = Some v \<and> v \<noteq> []) \<or>
            (\<exists>v. getenv ?e (u ''GH_TOKEN'') = Some v \<and> v \<noteq> [])"
    by (simp add: u_def)
  have 5: "check_workflow_runs ?e 10 None =
     ([[u ''gh'', u ''--version''], [u ''gh'', u ''auth'', u ''status'']],
      Returned (py_join [10]
        ([[0x1F50D] @ u '' GitHub Actions Workflow Status'', replicate 40 61, [],
          [0x274C] @ u '' GitHub CLI not authenticated'',
          [0x1F527] @ u '' Container setup:''] @
         [u ''  1. GITHUB_TOKEN found in environment'',
          u ''  2. Run: echo $GITHUB_TOKEN | gh auth login --with-token''] @
         [[],
          [0x1F511] @ u '' Token requirements for private repos:'',
          u ''  - repo (full control of private repositories)'',
          u ''  - workflow (update GitHub Action workflows)'',
          u ''  - read:org (read org and team membership)''])))"
    using T [where w = ?e and ?t1.0 = 0 and ?out1.0 = "Utf8 []" and ?err1.0 = "Utf8 []"
               and ?t2.0 = 0 and rc = 1 and ?out2.0 = "Utf8 []" and ?err2.0 = "Utf8 []"
               and limit = 10 and workflow_name = None,
             THEN conjunct2, THEN conjunct2, THEN conjunct2, THEN conjunct1,
             unfolded if_P [OF ee]] ve se
    by (simp add: exits_ok_def)
  have jg: "json_loads ?g (u ''[]'') = Inr []"
    by (simp add: gh_world_def loads_empty_array_def)
  have 6: "check_workflow_runs ?g 10 None =
     ([[u ''gh'', u ''--version''], [u ''gh'', u ''auth'', u ''status''],
       [u ''gh'', u ''run'', u ''list'', u ''--limit'', u ''10'', u ''--json'',
        u ''status,conclusion,name,createdAt,headBranch,workflowName,url,databaseId'']],
      Returned (py_join [10]
        [[0x1F50D] @ u '' GitHub Actions Workflow Status'', replicate 40 61, [],
         [0x2139, 0xFE0F] @ u ''  No workflow runs found'']))"
    using T [where w = ?g and ?t1.0 = 0 and ?out1.0 = "Utf8 []" and ?err1.0 = "Utf8 []"
               and ?t2.0 = 0 and ?out2.0 = "Utf8 []" and ?err2.0 = "Utf8 []"
               and t = 1 and body = "u ''[]''" and err = "Utf8 []"
               and limit = 10 and workflow_name = None,
             THEN conjunct2, THEN conjunct2, THEN conjunct2, THEN conjunct2, THEN conjunct1,
             unfolded i] v s q jg
    by (simp add: exits_ok_def)
  have m: "str_exn gh_missing =
             u ''[Errno 2] No such file or directory: '' @ [39] @ u ''gh'' @ [39]"
    by (simp add: gh_missing_def)
  let ?m = "[[0x274C] @ u '' Error checking GitHub auth: '' @ str_exn gh_missing,
             [0x1F4A1] @ u '' Run: ./scripts/setup-github-auth.sh'']"
  have va: "create_subprocess_exec ?a gh_version = Inl gh_missing"
    by (simp add: gh_world_def)
  then have ex: "\<exists>e. create_subprocess_exec ?a gh_version = Inl e" by blast
  have a': "snd (check_github_auth ?a) = Returned (False, ?m)"
    by (simp add: check_github_auth_cases va)
  have gne: "gh_auth_status \<noteq> gh_version"
    by (simp add: gh_version_def gh_auth_status_def)
  have b': "snd (check_github_auth ?g) =
              Returned (True, [[0x2705] @ u '' GitHub CLI authenticated''])"
    by (simp add: check_github_auth_cases gh_world_def exits_ok_def gne)
  have sb: "create_subprocess_exec ?g (run_list_cmd 10 None) =
              Inr (Exits 1 0 (Utf8 (u ''[]'')) (Utf8 []))"
    by (simp add: gh_world_def run_list_cmd_not_auth)
  note 7 = T [where w = ?a, THEN conjunct2, THEN conjunct2, THEN conjunct2, THEN conjunct2, THEN conjunct2,
              THEN conjunct1, rule_format, OF disjI1 [OF ex]]
  note g2 = T [where w = ?a and messages = ?m and limit = 10 and workflow_name = None,
               THEN conjunct2, THEN conjunct2, THEN conjunct2, THEN conjunct2, THEN conjunct2,
               THEN conjunct2, THEN conjunct1, rule_format, OF a']
  then have 8: "run_list_cmd 10 None \<notin> set (fst (check_workflow_runs ?a 10 None))"
    by blast
  note 9 = T [where w = ?g and messages = "[[0x2705] @ u '' GitHub CLI authenticated'']"
                and limit = 10 and workflow_name = None and t = 1 and body = "u ''[]''"
                and err = "Utf8 []",
              THEN conjunct2, THEN conjunct2, THEN conjunct2, THEN conjunct2, THEN conjunct2,
              THEN conjunct2, THEN conjunct2, rule_format, OF conjI [OF b' conjI [OF sb jg]]]
  have "check_workflow_runs ?a 10 None =
     ([[u ''gh'', u ''--version'']],
      Returned (py_join [10]
        [[0x1F50D] @ u '' GitHub Actions Workflow Status'', replicate 40 61, [],
         [0x274C] @ u '' Error checking GitHub auth: [Errno 2] No such file or directory: '' @
           [39] @ u ''gh'' @ [39],
         [0x1F4A1] @ u '' Run: ./scripts/setup-github-auth.sh'']))"
    unfolding 1 m by (simp add: u_def)
  moreover have "check_workflow_runs ?c 10 None =
     ([[u ''gh'', u ''--version''], [u ''gh'', u ''auth'', u ''status'']],
      Returned (py_join [10]
        [[0x1F50D] @ u '' GitHub Actions Workflow Status'', replicate 40 61, [],
         [0x274C] @ u '' Error checking GitHub auth: [Errno 2] No such file or directory: '' @
           [39] @ u ''gh'' @ [39],
         [0x1F4A1] @ u '' Run: ./scripts/setup-github-auth.sh'']))"
    unfolding 3 m by (simp add: u_def)
  moreover have "check_workflow_runs ?d 10 None =
     ([[u ''gh'', u ''--version''], [u ''gh'', u ''auth'', u ''status'']],
      Returned (py_join [10]
        [[0x1F50D] @ u '' GitHub Actions Workflow Status'', replicate 40 61, [],
         [0x274C] @ u '' GitHub CLI not authenticated'',
         [0x1F527] @ u '' Container setup:'',
         u ''  1. Set GITHUB_TOKEN environment variable'',
         u ''  2. Run: docker-compose up -d mcp-server'',
         u ''  3. Or run: ./scripts/setup-github-auth.sh'',
         [],
         [0x1F511] @ u '' Token requirements for private repos:'',
         u ''  - repo (full control of private repositories)'',
         u ''  - workflow (update GitHub Action workflows)'',
         u ''  - read:org (read org and team membership)'']))"
    unfolding 4 by simp
  moreover have "check_workflow_runs ?e 10 None =
     ([[u ''gh'', u ''--version''], [u ''gh'', u ''auth'', u ''status'']],
      Returned (py_join [10]
        [[0x1F50D] @ u '' GitHub Actions Workflow Status'', replicate 40 61, [],
         [0x274C] @ u '' GitHub CLI not authenticated'',
         [0x1F527] @ u '' Container setup:'',
         u ''  1. GITHUB_TOKEN found in environment'',
         u ''  2. Run: echo $GITHUB_TOKEN | gh auth login --with-token'',
         [],
         [0x1F511] @ u '' Token requirements for private repos:'',
         u ''  - repo (full control of private repositories)'',
         u ''  - workflow (update GitHub Action workflows)'',
         u ''  - read:org (read org and team membership)'']))"
    unfolding 5 by simp
  ultimately show ?thesis
    using 2 6 7 8 9 by blast
qed

section \<open>No exception leaves an operation\<close>

text \<open>
  The handlers at the three call boundaries absorb every exception: none of the
  operations raises to its caller.
\<close>

theorem run_docker_command_never_raises:
  "snd (run_docker_command w command description timeout compose_command) \<noteq> Raised e"
  by (cases "run_body w command description timeout compose_command")
     (simp add: run_docker_command_def split: result.splits)

theorem check_github_auth_never_raises: "snd (check_github_auth w) \<noteq> Raised e"
  by (cases "gh_auth_body w") (simp add: check_github_auth_def split: result.splits)

theorem check_workflow_runs_never_raises:
  "snd (check_workflow_runs w limit workflow_name) \<noteq> Raised e"
  by (cases "workflow_runs_body w limit workflow_name")
     (simp add: check_workflow_runs_def split: result.splits)

end
